theory Spec2Isabelle
  imports Complex_Main "HOL-Library.AList" "HOL-Library.List_Lexorder" "HOL-Library.Char_ord"
begin

section \<open>Errors and Python string operations\<close>

text \<open>
  The model follows \<^verbatim>\<open>pyresample/utils.py\<close>. Python values as the parsers and \<^verbatim>\<open>from_params\<close> receive them: \<^verbatim>\<open>None\<close>, booleans,
  numbers (floats are held as reals: the model does not round), strings, lists or tuples,
  and dictionaries (association lists read with \<open>map_of\<close>).
\<close>

datatype pyval =
    PyNone
  | PyBool bool
  | PyNum real
  | PyStr string
  | PyList "pyval list"
  | PyDict "(string \<times> pyval) list"

text \<open>
  A quantity is given plainly or as an \<^verbatim>\<open>xarray.DataArray\<close>, which holds its data and
  the value of its \<^verbatim>\<open>units\<close> attribute.
\<close>

datatype ('a, 'u) variable = Plain 'a | DataArray 'a 'u

text \<open>The values of a PROJ.4 dictionary: a float, a string, or \<^verbatim>\<open>True\<close> for a key alone.\<close>

datatype projval = PFloat real | PStr string | PTrue

type_synonym proj_dict = "(string \<times> projval) list"

text \<open>
  Every exception the source can raise is a value of type \<open>error\<close>; a function that may
  raise returns \<open>error + 'a\<close>, with \<open>Inl\<close> for the exception. The \<^verbatim>\<open>ValueError\<close>s of the
  source differ only in their message; the model keeps the message's kind and its format
  arguments. \<^verbatim>\<open>RuntimeError\<close> is what a projection raises under \<^verbatim>\<open>errcheck\<close>.
\<close>

datatype value_error =
    NotListLike string
  | NotNumeric string
  | WrongLength string nat nat
  | LatlongMeters string
  | InvalidUnits string projval
  | MissingCenter
  | ConflictingData string "string list"
  | TooManyArguments string string
  | NotEnoughInformation
  | NotInList string
  | CouldNotConvert string

datatype error =
    AreaNotFound string
  | ValueError value_error
  | TypeError
  | IndexError
  | AttributeError
  | ZeroDivisionError
  | BroadcastError
  | ScannerError
  | RuntimeError

definition bind_err :: "error + 'a \<Rightarrow> ('a \<Rightarrow> error + 'b) \<Rightarrow> error + 'b" where
  "bind_err m f = (case m of Inl e \<Rightarrow> Inl e | Inr x \<Rightarrow> f x)"

text \<open>\<^verbatim>\<open>s.startswith(sub)\<close> and \<^verbatim>\<open>sub in s\<close> on strings.\<close>

definition startswith :: "string \<Rightarrow> string \<Rightarrow> bool" where
  "startswith s sub = (take (length sub) s = sub)"

fun contains :: "string \<Rightarrow> string \<Rightarrow> bool" where
  "contains [] sub = (sub = [])"
| "contains (c # cs) sub = (startswith (c # cs) sub \<or> contains cs sub)"

text \<open>
  \<^verbatim>\<open>s.replace(old, new)\<close>: the occurrences of \<open>old\<close> are replaced from left to right
  and do not overlap. The counter of \<open>replace_from\<close> is the number of characters of the
  occurrence just replaced that are still to be skipped. An empty \<open>old\<close> matches
  before every character and at the end.
\<close>

fun replace_from :: "string \<Rightarrow> string \<Rightarrow> nat \<Rightarrow> string \<Rightarrow> string" where
  "replace_from old new k [] = []"
| "replace_from old new (Suc k) (c # cs) = replace_from old new k cs"
| "replace_from old new 0 (c # cs) =
     (if startswith (c # cs) old then new @ replace_from old new (length old - 1) cs
      else c # replace_from old new 0 cs)"

definition replace :: "string \<Rightarrow> string \<Rightarrow> string \<Rightarrow> string" where
  "replace s old new =
     (if old = [] then new @ concat (map (\<lambda>c. c # new) s) else replace_from old new 0 s)"

text \<open>
  \<^verbatim>\<open>s.strip()\<close> removes leading and trailing whitespace; \<open>isspace\<close> lists the
  whitespace code points below 256 of a Python 3 string.
\<close>

definition isspace :: "char \<Rightarrow> bool" where
  "isspace c = (of_char c \<in> {9::nat, 10, 11, 12, 13, 28, 29, 30, 31, 32, 133, 160})"

definition strip :: "string \<Rightarrow> string" where
  "strip s = rev (dropWhile isspace (rev (dropWhile isspace s)))"

text \<open>\<^verbatim>\<open>s.split(sep)\<close> for a one-character separator: every separator splits.\<close>

fun split :: "string \<Rightarrow> char \<Rightarrow> string list" where
  "split [] sep = [[]]"
| "split (c # cs) sep =
     (if c = sep then [] # split cs sep
      else (case split cs sep of [] \<Rightarrow> [[c]] | w # ws \<Rightarrow> (c # w) # ws))"

text \<open>\<^verbatim>\<open>s.split(sep, 1)\<close>: at most one split, at the first separator.\<close>

definition split1 :: "string \<Rightarrow> char \<Rightarrow> string list" where
  "split1 s sep =
     (if sep \<in> set s
      then [takeWhile (\<lambda>c. c \<noteq> sep) s, tl (dropWhile (\<lambda>c. c \<noteq> sep) s)]
      else [s])"

text \<open>\<^verbatim>\<open>sep.join(xs)\<close>.\<close>

fun join :: "string \<Rightarrow> string list \<Rightarrow> string" where
  "join sep [] = []"
| "join sep [x] = x"
| "join sep (x # y # ys) = x @ sep @ join sep (y # ys)"

section \<open>The YAML area file parser: reading a list-like parameter\<close>

text \<open>
  \<^verbatim>\<open>_get_list(params, var, arg_list)\<close>. The loop runs over \<open>var\<close> followed by the
  component names. \<^verbatim>\<open>list_of_values\<close> starts as the empty list, becomes the value of the
  bare key when that key is present, and is then extended with the components found.
  \<^verbatim>\<open>append\<close> and \<^verbatim>\<open>extend\<close> exist on lists only: on any other value they raise
  \<^verbatim>\<open>AttributeError\<close>, which the source turns into the \<^verbatim>\<open>ValueError\<close> "has too many
  arguments: Both ... were specified".
\<close>

fun get_list_loop ::
  "string \<Rightarrow> (string \<times> pyval) list \<Rightarrow> string list \<Rightarrow> pyval \<Rightarrow> error + pyval" where
  "get_list_loop var variable [] list_of_values = Inr list_of_values"
| "get_list_loop var variable (arg # args) list_of_values =
     (case map_of variable arg of
        None \<Rightarrow> get_list_loop var variable args list_of_values
      | Some values \<Rightarrow>
          (if arg = var then get_list_loop var variable args values
           else (case list_of_values of
                   PyList xs \<Rightarrow>
                     (case values of
                        PyList vs \<Rightarrow>
                          (if arg = ''lower_left_xy'' \<or> arg = ''upper_right_xy''
                           then get_list_loop var variable args (PyList (xs @ vs))
                           else get_list_loop var variable args (PyList (xs @ [values])))
                      | _ \<Rightarrow> get_list_loop var variable args (PyList (xs @ [values])))
                 | _ \<Rightarrow> Inl (ValueError (TooManyArguments var arg)))))"

definition get_list ::
  "(string \<times> pyval) list \<Rightarrow> string \<Rightarrow> string list \<Rightarrow> pyval
     \<Rightarrow> error + (pyval, pyval) variable" where
  "get_list params var arg_list default_value =
     (case map_of params var of
        None \<Rightarrow> Inr (Plain default_value)
      | Some (PyDict variable) \<Rightarrow>
          (case get_list_loop var variable (var # arg_list) (PyList []) of
             Inl e \<Rightarrow> Inl e
           | Inr list_of_values \<Rightarrow>
               (case map_of variable ''units'' of
                  None \<Rightarrow> Inr (Plain list_of_values)
                | Some PyNone \<Rightarrow> Inr (Plain list_of_values)
                | Some units \<Rightarrow> Inr (DataArray list_of_values units)))
      | Some variable \<Rightarrow> Inr (Plain variable))"

section \<open>PROJ.4 strings and dictionaries\<close>

text \<open>
  A Python dictionary keeps its keys in insertion order, and assigning to a key that is
  present replaces the value in place: \<open>AList.update\<close> on an association list.
  \<^verbatim>\<open>float(x)\<close> on a string and the text \<^verbatim>\<open>'{}'.format\<close> gives for a float are taken as
  the parameters \<open>str_to_float\<close> (\<open>None\<close> for \<^verbatim>\<open>ValueError\<close>) and \<open>float_to_str\<close>.
\<close>

fun convert_proj_floats_loop ::
  "(string \<Rightarrow> real option) \<Rightarrow> string list list \<Rightarrow> proj_dict \<Rightarrow> error + proj_dict" where
  "convert_proj_floats_loop str_to_float [] proj_dict = Inr proj_dict"
| "convert_proj_floats_loop str_to_float (x # rest) proj_dict =
     (case x of
        [] \<Rightarrow> Inl IndexError
      | [k] \<Rightarrow> convert_proj_floats_loop str_to_float rest (AList.update k PTrue proj_dict)
      | k # v # _ \<Rightarrow>
          convert_proj_floats_loop str_to_float rest
            (AList.update k (case str_to_float v of Some r \<Rightarrow> PFloat r | None \<Rightarrow> PStr v)
               proj_dict))"

definition convert_proj_floats ::
  "(string \<Rightarrow> real option) \<Rightarrow> string list list \<Rightarrow> error + proj_dict" where
  "convert_proj_floats str_to_float proj_pairs =
     convert_proj_floats_loop str_to_float proj_pairs []"

definition proj4_str_to_dict :: "(string \<Rightarrow> real option) \<Rightarrow> string \<Rightarrow> error + proj_dict" where
  "proj4_str_to_dict str_to_float proj4_str =
     convert_proj_floats str_to_float
       (map (\<lambda>x. split1 x (CHR ''='')) (split (replace proj4_str ''+'' '''') (CHR '' '')))"

definition format_projval :: "(real \<Rightarrow> string) \<Rightarrow> projval \<Rightarrow> string" where
  "format_projval float_to_str val =
     (case val of PFloat r \<Rightarrow> float_to_str r | PStr s \<Rightarrow> s | PTrue \<Rightarrow> ''True'')"

definition proj4_param :: "(real \<Rightarrow> string) \<Rightarrow> string \<times> projval \<Rightarrow> string" where
  "proj4_param float_to_str item =
     (let key = (if startswith (fst item) ''+'' then fst item else ''+'' @ fst item)
      in if key \<in> set [''+no_defs'', ''+no_off'', ''+no_rot''] then key
         else key @ ''='' @ format_projval float_to_str (snd item))"

text \<open>
  \<^verbatim>\<open>sorted(items)\<close> orders the items by key (the keys of a dictionary differ, so the
  values are never compared); strings are compared by code point, lexicographically.
\<close>

definition proj4_dict_to_str :: "(real \<Rightarrow> string) \<Rightarrow> proj_dict \<Rightarrow> bool \<Rightarrow> string" where
  "proj4_dict_to_str float_to_str proj4_dict sort_flag =
     (let items = (if sort_flag then sort_key fst proj4_dict else proj4_dict)
      in join '' '' (map (proj4_param float_to_str) items))"

section \<open>Creating an area definition from parameters\<close>

subsection \<open>The shape normalizer\<close>

text \<open>
  \<^verbatim>\<open>float(x)\<close>: a number is kept, a boolean is 0 or 1, a string is parsed (and
  \<^verbatim>\<open>ValueError\<close> raised when it is no number), anything else is a \<^verbatim>\<open>TypeError\<close>.
\<close>

definition py_float :: "(string \<Rightarrow> real option) \<Rightarrow> pyval \<Rightarrow> error + real" where
  "py_float str_to_float v =
     (case v of
        PyNum x \<Rightarrow> Inr x
      | PyBool b \<Rightarrow> Inr (if b then 1 else 0)
      | PyStr s \<Rightarrow>
          (case str_to_float s of Some x \<Rightarrow> Inr x | None \<Rightarrow> Inl (ValueError (CouldNotConvert s)))
      | _ \<Rightarrow> Inl TypeError)"

fun map_err :: "('a \<Rightarrow> error + 'b) \<Rightarrow> 'a list \<Rightarrow> error + 'b list" where
  "map_err f [] = Inr []"
| "map_err f (x # xs) =
     (case f x of
        Inl e \<Rightarrow> Inl e
      | Inr y \<Rightarrow> (case map_err f xs of Inl e \<Rightarrow> Inl e | Inr ys \<Rightarrow> Inr (y # ys)))"

text \<open>
  What \<^verbatim>\<open>for num in var\<close> runs over: the elements of a list or tuple, the characters of
  a string, the keys of a dictionary; any other value is not iterable.
\<close>

definition py_iter :: "pyval \<Rightarrow> error + pyval list" where
  "py_iter v =
     (case v of
        PyList xs \<Rightarrow> Inr xs
      | PyStr s \<Rightarrow> Inr (map (\<lambda>c. PyStr [c]) s)
      | PyDict d \<Rightarrow> Inr (map (\<lambda>kv. PyStr (fst kv)) d)
      | _ \<Rightarrow> Inl TypeError)"

definition is_list_or_tuple :: "pyval \<Rightarrow> bool" where
  "is_list_or_tuple v = (case v of PyList xs \<Rightarrow> True | _ \<Rightarrow> False)"

definition format_list :: "(string \<Rightarrow> real option) \<Rightarrow> pyval \<Rightarrow> string \<Rightarrow> error + real list" where
  "format_list str_to_float var name =
     (if \<not> is_list_or_tuple var \<and> name \<in> set [''resolution'', ''radius'']
      then bind_err (py_float str_to_float var) (\<lambda>x. Inr [x, x])
      else bind_err (py_iter var) (map_err (py_float str_to_float)))"

text \<open>
  \<^verbatim>\<open>_verify_list\<close>. Python's \<^verbatim>\<open>None\<close> is \<open>Plain PyNone\<close> on input and \<open>None\<close> in the
  result. The \<^verbatim>\<open>try\<close> block turns a \<^verbatim>\<open>TypeError\<close> into "not list-like" and a
  \<^verbatim>\<open>ValueError\<close> into "not composed purely of numbers".
\<close>

definition data :: "('a, 'u) variable \<Rightarrow> 'a" where
  "data var = (case var of Plain xs \<Rightarrow> xs | DataArray xs u \<Rightarrow> xs)"

definition verify_list ::
  "(string \<Rightarrow> real option) \<Rightarrow> string \<Rightarrow> (pyval, string option) variable \<Rightarrow> nat
     \<Rightarrow> error + (real list, string option) variable option" where
  "verify_list str_to_float name var len =
     (if var = Plain PyNone then Inr None
      else
        (case (case var of
                 DataArray d (Some u) \<Rightarrow>
                   (if name \<noteq> ''shape''
                    then bind_err (format_list str_to_float d name) (\<lambda>xs. Inr (DataArray xs (Some u)))
                    else bind_err (format_list str_to_float d name) (\<lambda>xs. Inr (Plain xs)))
               | DataArray d None \<Rightarrow>
                   bind_err (format_list str_to_float d name) (\<lambda>xs. Inr (Plain xs))
               | Plain v \<Rightarrow> bind_err (format_list str_to_float v name) (\<lambda>xs. Inr (Plain xs))) of
           Inl TypeError \<Rightarrow> Inl (ValueError (NotListLike name))
         | Inl (ValueError e) \<Rightarrow> Inl (ValueError (NotNumeric name))
         | Inl e \<Rightarrow> Inl e
         | Inr var' \<Rightarrow>
             (if length (data var') \<noteq> len
              then Inl (ValueError (WrongLength name len (length (data var'))))
              else Inr (Some var'))))"

subsection \<open>The projection and the unit converter\<close>

text \<open>
  The \<^verbatim>\<open>pyproj.Proj\<close> object is used through \<^verbatim>\<open>p.is_latlong()\<close> and through the call
  \<^verbatim>\<open>p(x, y, radians=..., inverse=..., errcheck=...)\<close>, which returns a pair or raises.
\<close>

record proj =
  is_latlong :: bool
  transform :: "real \<Rightarrow> real \<Rightarrow> bool \<Rightarrow> bool \<Rightarrow> bool \<Rightarrow> error + real \<times> real"

text \<open>\<^verbatim>\<open>p(*args, radians=r, inverse=i, errcheck=e)\<close>: two positional arguments are needed.\<close>

definition call :: "proj \<Rightarrow> real list \<Rightarrow> bool \<Rightarrow> bool \<Rightarrow> bool \<Rightarrow> error + real list" where
  "call p args radians inverse_flag errcheck =
     (case args of
        [x, y] \<Rightarrow>
          (case transform p x y radians inverse_flag errcheck of
             Inl e \<Rightarrow> Inl e
           | Inr xy \<Rightarrow> Inr [fst xy, snd xy])
      | _ \<Rightarrow> Inl TypeError)"

definition sign :: "real \<Rightarrow> real" where
  "sign num = (if num < 0 then - 1 else 1)"

text \<open>\<^verbatim>\<open>math.pi\<close> is the double nearest to \<open>\<pi>\<close>; this is its exact value.\<close>

definition math_pi :: real where
  "math_pi = 884279719003555 / 2 ^ 48"

definition degree_sign :: string where
  "degree_sign = [CHR 0xB0]"

definition round_pole :: "real list \<Rightarrow> real \<Rightarrow> real \<Rightarrow> error + real list" where
  "round_pole center pole tolerance =
     (case center of
        c0 # c1 # rest \<Rightarrow>
          Inr (if \<bar>\<bar>c1\<bar> - pole\<bar> < tolerance then [c0, sign c1 * pole] else center)
      | _ \<Rightarrow> Inl IndexError)"

definition round_poles :: "real list \<Rightarrow> string \<Rightarrow> proj \<Rightarrow> error + real list" where
  "round_poles center units p =
     (let error = 1 / 10000 in
      bind_err
        (if contains units ''m''
         then bind_err (call p center False True True) (\<lambda>center.
              bind_err (round_pole center 90 error) (\<lambda>center.
              call p center False False True))
         else Inr center) (\<lambda>center.
      bind_err
        (if contains units ''deg'' \<or> contains units degree_sign
         then round_pole center 90 error
         else Inr center) (\<lambda>center.
      if contains units ''rad''
      then round_pole center (math_pi / 2) (error * math_pi / 180)
      else Inr center)))"

definition viable_units :: "string list" where
  "viable_units = [degree_sign, ''deg'', ''degrees'', ''rad'', ''radians'', ''m'', ''meters'']"

text \<open>
  The branch of \<^verbatim>\<open>_convert_units\<close> for a radius or resolution given as an angle, with a
  center: at a pole both components are measured along the meridian, elsewhere one along
  each axis.
\<close>

definition angle_to_distance ::
  "real list \<Rightarrow> string \<Rightarrow> proj \<Rightarrow> real list \<Rightarrow> error + real list" where
  "angle_to_distance var units p center =
     (let rad = contains units ''rad'' in
      case center of
        [c0, c1] \<Rightarrow>
          bind_err (transform p c0 c1 rad True True) (\<lambda>center_as_angle.
          bind_err (transform p c0 c1 False True False) (\<lambda>lonlat.
          if \<bar>\<bar>snd lonlat\<bar> - 90\<bar> < 1 / 10 ^ 10
          then
            (case var of
               [] \<Rightarrow> Inl IndexError
             | v0 # vs \<Rightarrow>
                 bind_err (transform p 0
                   (snd center_as_angle - sign (snd center_as_angle) * \<bar>v0\<bar>) rad False True)
                 (\<lambda>a.
                 case vs of
                   [] \<Rightarrow> Inl IndexError
                 | v1 # vs' \<Rightarrow>
                     bind_err (transform p 0
                       (snd center_as_angle - sign (snd center_as_angle) * \<bar>v1\<bar>) rad False True)
                     (\<lambda>b. Inr [\<bar>snd a + c1\<bar>, \<bar>snd b + c1\<bar>])))
          else
            (case var of
               [] \<Rightarrow> Inl IndexError
             | v0 # vs \<Rightarrow>
                 bind_err (transform p (fst center_as_angle - v0) (snd center_as_angle)
                   rad False True)
                 (\<lambda>a.
                 case vs of
                   [] \<Rightarrow> Inl IndexError
                 | v1 # vs' \<Rightarrow>
                     bind_err (transform p (fst center_as_angle) (snd center_as_angle - v1)
                       rad False True)
                     (\<lambda>b. Inr [\<bar>c0 - fst a\<bar>, \<bar>c1 - snd b\<bar>])))))
      | _ \<Rightarrow> Inl TypeError)"

text \<open>
  \<^verbatim>\<open>_convert_units\<close>, in the order of its statements. A \<^verbatim>\<open>DataArray\<close> brings its own
  units. The units passed in are the caller's, or the value of \<^verbatim>\<open>units\<close> in the PROJ.4
  dictionary, which need not be a string: \<^verbatim>\<open>'m' in units\<close> on a float or \<^verbatim>\<open>True\<close> is
  a \<^verbatim>\<open>TypeError\<close>, and such a value equals no viable unit.
\<close>

definition own_units ::
  "(real list, string option) variable \<Rightarrow> projval \<Rightarrow> error + projval \<times> real list" where
  "own_units var units =
     (case var of
        DataArray xs (Some u) \<Rightarrow> Inr (PStr u, xs)
      | DataArray xs None \<Rightarrow> Inl AttributeError
      | Plain xs \<Rightarrow> Inr (units, xs))"

definition check_units :: "string \<Rightarrow> projval \<Rightarrow> proj \<Rightarrow> error + string" where
  "check_units name units p =
     bind_err
       (if is_latlong p
        then (case units of PStr u \<Rightarrow> Inr (contains u ''m'') | _ \<Rightarrow> Inl TypeError)
        else Inr False) (\<lambda>latlong_in_meters.
     if latlong_in_meters then Inl (ValueError (LatlongMeters name))
     else (case units of
             PStr u \<Rightarrow>
               if u \<in> set viable_units then Inr u
               else Inl (ValueError (InvalidUnits name units))
           | _ \<Rightarrow> Inl (ValueError (InvalidUnits name units))))"

definition convert_value ::
  "real list \<Rightarrow> string \<Rightarrow> string \<Rightarrow> proj \<Rightarrow> bool \<Rightarrow> real list option \<Rightarrow> error + real list" where
  "convert_value var name units p inverse_flag center =
     (if (contains units degree_sign \<or> contains units ''deg'' \<or> contains units ''rad'')
           \<and> \<not> inverse_flag
      then
        (if name \<in> set [''radius'', ''resolution'']
         then (case center of
                 None \<Rightarrow> Inl (ValueError MissingCenter)
               | Some c \<Rightarrow> angle_to_distance var units p c)
         else call p var (contains units ''rad'') False True)
      else if inverse_flag \<and> contains units ''m''
      then call p var False True True
      else Inr var)"

definition abs_components :: "string \<Rightarrow> real list \<Rightarrow> error + real list" where
  "abs_components name var =
     (if name \<in> set [''radius'', ''resolution'']
      then (case var of
              v0 # v1 # rest \<Rightarrow> Inr [\<bar>v0\<bar>, \<bar>v1\<bar>]
            | _ \<Rightarrow> Inl IndexError)
      else Inr var)"

definition convert_units ::
  "(real list, string option) variable option \<Rightarrow> string \<Rightarrow> projval \<Rightarrow> proj \<Rightarrow> bool
     \<Rightarrow> real list option \<Rightarrow> error + real list option" where
  "convert_units var name units p inverse_flag center =
     (case var of
        None \<Rightarrow> Inr None
      | Some v \<Rightarrow>
          bind_err (own_units v units) (\<lambda>(units, var).
          bind_err (check_units name units p) (\<lambda>units.
          bind_err (if name = ''center'' then round_poles var units p else Inr var) (\<lambda>var.
          bind_err (convert_value var name units p inverse_flag center) (\<lambda>var.
          bind_err (abs_components name var) (\<lambda>var.
          Inr (Some var)))))))"

text \<open>
  \<^verbatim>\<open>_get_converted_lists\<close>: the area extent is split into its lower left and upper
  right points (a slice of a \<^verbatim>\<open>DataArray\<close> keeps the units), the four points are
  converted in turn, and the two halves are put together again.
\<close>

definition slice ::
  "nat \<Rightarrow> nat \<Rightarrow> (real list, string option) variable \<Rightarrow> (real list, string option) variable" where
  "slice i j var =
     (case var of
        Plain xs \<Rightarrow> Plain (take (j - i) (drop i xs))
      | DataArray xs u \<Rightarrow> DataArray (take (j - i) (drop i xs)) u)"

definition get_converted_lists ::
  "(real list, string option) variable option \<Rightarrow> (real list, string option) variable option
     \<Rightarrow> (real list, string option) variable option \<Rightarrow> projval \<Rightarrow> proj
     \<Rightarrow> error + real list option \<times> real list option \<times> real list option" where
  "get_converted_lists center top_left_extent area_extent units p =
     (let area_extent_ll = map_option (\<lambda>ae. slice 0 2 ae) area_extent;
          area_extent_ur = map_option (\<lambda>ae. slice 2 (length (data ae)) ae) area_extent
      in
      bind_err (convert_units center ''center'' units p False None) (\<lambda>center.
      bind_err (convert_units top_left_extent ''top_left_extent'' units p False None)
        (\<lambda>top_left_extent.
      bind_err (convert_units area_extent_ll ''area_extent'' units p False None)
        (\<lambda>area_extent_ll.
      bind_err (convert_units area_extent_ur ''area_extent'' units p False None)
        (\<lambda>area_extent_ur.
      Inr (center, top_left_extent,
           (case (area_extent_ll, area_extent_ur) of
              (Some ll, Some ur) \<Rightarrow> Some (ll @ ur)
            | _ \<Rightarrow> None)))))))"

subsection \<open>The variable validator\<close>

text \<open>
  \<^verbatim>\<open>numpy.allclose(a, b)\<close> with its default tolerances: every pair of elements has
  \<open>\<bar>a - b\<bar> \<le> atol + rtol * \<bar>b\<bar>\<close>, with \<open>rtol = 1e-05\<close> and \<open>atol = 1e-08\<close>. Sequences
  of the same length are compared element by element, a sequence of length one is
  compared with every element of the other, and other lengths cannot be broadcast.
\<close>

definition isclose :: "real \<Rightarrow> real \<Rightarrow> bool" where
  "isclose a b = (\<bar>a - b\<bar> \<le> 1 / 10 ^ 8 + 1 / 10 ^ 5 * \<bar>b\<bar>)"

definition allclose :: "real list \<Rightarrow> real list \<Rightarrow> error + bool" where
  "allclose a b =
     (if length a = length b then Inr (list_all2 isclose a b)
      else (case a of
              [x] \<Rightarrow> Inr (list_all (isclose x) b)
            | _ \<Rightarrow> (case b of
                      [y] \<Rightarrow> Inr (list_all (\<lambda>x. isclose x y) a)
                    | _ \<Rightarrow> Inl BroadcastError)))"

definition validate_variable ::
  "real list option \<Rightarrow> real list \<Rightarrow> string \<Rightarrow> string list \<Rightarrow> error + real list" where
  "validate_variable var new_var var_name input_list =
     (case var of
        None \<Rightarrow> Inr new_var
      | Some v \<Rightarrow>
          (case allclose v new_var of
             Inl e \<Rightarrow> Inl e
           | Inr close \<Rightarrow>
               (if \<not> close then Inl (ValueError (ConflictingData var_name input_list))
                else Inr new_var)))"

subsection \<open>The inference engine\<close>

text \<open>
  \<^verbatim>\<open>_extrapolate_information\<close> is a sequence of three \<^verbatim>\<open>if\<close> statements with the
  conversion of the resolution between the first and the second. Each statement is one
  definition here, named after the functions 1-A/1-B, 2-A/2-B and 1-C/1-D of the
  source's comments. Indexing a tuple that is too short raises \<^verbatim>\<open>IndexError\<close>, and a
  division of floats by zero raises \<^verbatim>\<open>ZeroDivisionError\<close>.
\<close>

definition extrapolate_radius ::
  "real list option \<Rightarrow> real list option \<Rightarrow> (real list, string option) variable option
     \<Rightarrow> real list option \<Rightarrow> projval \<Rightarrow> proj
     \<Rightarrow> error + real list option \<times> real list option \<times> real list option" where
  "extrapolate_radius area_extent center radius top_left_extent units p =
     (case area_extent of
        Some ae \<Rightarrow>
          (case ae of
             a0 # a1 # a2 # a3 # rest \<Rightarrow>
               bind_err (validate_variable center [(a2 + a0) / 2, (a3 + a1) / 2]
                           ''center'' [''area_extent'']) (\<lambda>center.
               bind_err (convert_units radius ''radius'' units p False (Some center)) (\<lambda>radius.
               bind_err (validate_variable radius [(a2 - a0) / 2, (a3 - a1) / 2]
                           ''radius'' [''area_extent'']) (\<lambda>radius.
               bind_err (validate_variable top_left_extent [a0, a3]
                           ''top_left_extent'' [''area_extent'']) (\<lambda>top_left_extent.
               Inr (Some center, Some radius, Some top_left_extent)))))
           | _ \<Rightarrow> Inl IndexError)
      | None \<Rightarrow>
          (case (top_left_extent, center) of
             (Some tle, Some c) \<Rightarrow>
               bind_err (convert_units radius ''radius'' units p False center) (\<lambda>radius.
               (case (c, tle) of
                  (c0 # c1 # crest, t0 # t1 # trest) \<Rightarrow>
                    bind_err (validate_variable radius [c0 - t0, t1 - c1]
                                ''radius'' [''top_left_extent'', ''center'']) (\<lambda>radius.
                    Inr (center, Some radius, top_left_extent))
                | _ \<Rightarrow> Inl IndexError))
           | _ \<Rightarrow>
               bind_err (convert_units radius ''radius'' units p False center) (\<lambda>radius.
               Inr (center, radius, top_left_extent))))"

definition extrapolate_shape ::
  "real list option \<Rightarrow> real list option \<Rightarrow> real list option
     \<Rightarrow> error + real list option \<times> real list option" where
  "extrapolate_shape radius resolution shape =
     (case (radius, resolution) of
        (Some rad, Some res) \<Rightarrow>
          (case rad of
             r0 # r1 # rrest \<Rightarrow>
               (case res of
                  s0 # s1 # srest \<Rightarrow>
                    (if s1 = 0 \<or> s0 = 0 then Inl ZeroDivisionError
                     else bind_err (validate_variable shape [2 * r1 / s1, 2 * r0 / s0]
                                      ''shape'' [''radius'', ''resolution'']) (\<lambda>shape.
                          Inr (radius, Some shape)))
                | _ \<Rightarrow> Inl IndexError)
           | _ \<Rightarrow> Inl IndexError)
      | _ \<Rightarrow>
          (case (resolution, shape) of
             (Some res, Some sh) \<Rightarrow>
               (case (res, sh) of
                  (s0 # s1 # srest, h # w # hrest) \<Rightarrow>
                    bind_err (validate_variable radius [s0 * w / 2, s1 * h / 2]
                                ''radius'' [''shape'', ''resolution'']) (\<lambda>radius.
                    Inr (Some radius, shape))
                | _ \<Rightarrow> Inl IndexError)
           | _ \<Rightarrow> Inr (radius, shape)))"

definition extrapolate_area_extent ::
  "real list option \<Rightarrow> real list option \<Rightarrow> real list option \<Rightarrow> real list option
     \<Rightarrow> error + real list option" where
  "extrapolate_area_extent area_extent center radius top_left_extent =
     (case (center, radius) of
        (Some c, Some r) \<Rightarrow>
          (case (c, r) of
             (c0 # c1 # crest, r0 # r1 # rrest) \<Rightarrow>
               bind_err (validate_variable area_extent [c0 - r0, c1 - r1, c0 + r0, c1 + r1]
                           ''area_extent'' [''center'', ''radius'']) (\<lambda>area_extent.
               Inr (Some area_extent))
           | _ \<Rightarrow> Inl IndexError)
      | _ \<Rightarrow>
          (case (top_left_extent, radius) of
             (Some tle, Some r) \<Rightarrow>
               (case (tle, r) of
                  (t0 # t1 # trest, r0 # r1 # rrest) \<Rightarrow>
                    bind_err (validate_variable area_extent [t0, t1 - 2 * r1, t0 + 2 * r0, t1]
                                ''area_extent'' [''top_left_extent'', ''radius''])
                      (\<lambda>area_extent. Inr (Some area_extent))
                | _ \<Rightarrow> Inl IndexError)
           | _ \<Rightarrow> Inr area_extent))"

definition extrapolate_information ::
  "real list option \<Rightarrow> real list option \<Rightarrow> real list option
     \<Rightarrow> (real list, string option) variable option
     \<Rightarrow> (real list, string option) variable option \<Rightarrow> real list option \<Rightarrow> projval \<Rightarrow> proj
     \<Rightarrow> error + real list option \<times> real list option" where
  "extrapolate_information area_extent shape center radius resolution top_left_extent units p =
     bind_err (extrapolate_radius area_extent center radius top_left_extent units p)
       (\<lambda>(center, radius, top_left_extent).
     bind_err (convert_units resolution ''resolution'' units p False center) (\<lambda>resolution.
     bind_err (extrapolate_shape radius resolution shape) (\<lambda>(radius, shape).
     bind_err (extrapolate_area_extent area_extent center radius top_left_extent)
       (\<lambda>area_extent. Inr (area_extent, shape)))))"

subsection \<open>The grid definition factory\<close>

text \<open>
  The two classes of \<^verbatim>\<open>pyresample.geometry\<close> are constructors that keep their arguments.
  \<^verbatim>\<open>int(round(x))\<close> rounds to the nearest integer, and a tie to the even one. The
  warning that \<^verbatim>\<open>_make_area\<close> logs when it rounds a width or height up changes no
  result and is left out.
\<close>

datatype area =
    AreaDefinition string pyval pyval proj_dict int int "real list" "(string \<times> pyval) list"
  | DynamicAreaDefinition string pyval proj_dict "int option" "int option"
      "real list option" pyval pyval

definition py_round :: "real \<Rightarrow> int" where
  "py_round x =
     (let f = \<lfloor>x\<rfloor>; d = x - of_int f
      in if d < 1 / 2 then f else if 1 / 2 < d then f + 1 else if even f then f else f + 1)"

definition round_shape :: "real \<Rightarrow> int" where
  "round_shape x =
     (if x - of_int \<lfloor>x\<rfloor> < 1 / 100 \<or> of_int \<lceil>x\<rceil> - x < 1 / 100 then py_round x else \<lceil>x\<rceil>)"

definition kwargs_get :: "(string \<times> pyval) list \<Rightarrow> string \<Rightarrow> pyval \<Rightarrow> pyval" where
  "kwargs_get kwargs key default_value =
     (case map_of kwargs key of None \<Rightarrow> default_value | Some v \<Rightarrow> v)"

definition make_area ::
  "string \<Rightarrow> pyval \<Rightarrow> pyval \<Rightarrow> proj_dict \<Rightarrow> real list option \<Rightarrow> real list option
     \<Rightarrow> (string \<times> pyval) list \<Rightarrow> error + area" where
  "make_area area_id description proj_id proj_dict shape area_extent kwargs =
     bind_err
       (case shape of
          None \<Rightarrow> Inr (None, None)
        | Some sh \<Rightarrow>
            (case sh of
               h # w # rest \<Rightarrow> Inr (Some (round_shape w), Some (round_shape h))
             | _ \<Rightarrow> Inl IndexError)) (\<lambda>(width, height).
     case (area_extent, shape) of
       (Some ae, Some sh) \<Rightarrow>
         Inr (AreaDefinition area_id description proj_id proj_dict (the width) (the height)
                ae kwargs)
     | (None, None) \<Rightarrow> Inl (ValueError NotEnoughInformation)
     | _ \<Rightarrow>
         Inr (DynamicAreaDefinition area_id description proj_dict width height area_extent
                (kwargs_get kwargs ''rotation'' PyNone)
                (kwargs_get kwargs ''optimize_projection'' (PyBool False))))"

text \<open>
  \<^verbatim>\<open>from_params\<close>, after \<^verbatim>\<open>_get_proj_data\<close> has made the dictionary \<open>proj_dict\<close> and
  the projection \<open>p\<close> of its argument. The caller's \<open>units\<close> are a string or \<open>None\<close>.
  \<open>resolved_parameters\<close> is the body of \<^verbatim>\<open>from_params\<close> up to the call of
  \<^verbatim>\<open>_make_area\<close>: it gives the area extent and the shape that call receives.
\<close>

definition resolved_parameters ::
  "(string \<Rightarrow> real option) \<Rightarrow> proj_dict \<Rightarrow> proj
     \<Rightarrow> (pyval, string option) variable \<Rightarrow> (pyval, string option) variable
     \<Rightarrow> (pyval, string option) variable \<Rightarrow> (pyval, string option) variable
     \<Rightarrow> (pyval, string option) variable \<Rightarrow> (pyval, string option) variable
     \<Rightarrow> string option \<Rightarrow> error + real list option \<times> real list option" where
  "resolved_parameters str_to_float proj_dict p shape top_left_extent center area_extent
       resolution radius units =
     (let units = (case units of
                     Some u \<Rightarrow> PStr u
                   | None \<Rightarrow> (case map_of proj_dict ''units'' of
                                None \<Rightarrow> PStr ''meters''
                              | Some u \<Rightarrow> u))
      in
      bind_err (verify_list str_to_float ''center'' center 2) (\<lambda>center.
      bind_err (verify_list str_to_float ''radius'' radius 2) (\<lambda>radius.
      bind_err (verify_list str_to_float ''top_left_extent'' top_left_extent 2)
        (\<lambda>top_left_extent.
      bind_err (verify_list str_to_float ''resolution'' resolution 2) (\<lambda>resolution.
      bind_err (verify_list str_to_float ''shape'' shape 2) (\<lambda>shape.
      bind_err (verify_list str_to_float ''area_extent'' area_extent 4) (\<lambda>area_extent.
      bind_err (get_converted_lists center top_left_extent area_extent units p)
        (\<lambda>(center, top_left_extent, area_extent).
      if area_extent = None \<or> map_option data shape = None
      then extrapolate_information area_extent (map_option data shape) center radius
             resolution top_left_extent units p
      else Inr (area_extent, map_option data shape)))))))))"

definition from_params ::
  "(string \<Rightarrow> real option) \<Rightarrow> string \<Rightarrow> proj_dict \<Rightarrow> proj
     \<Rightarrow> (pyval, string option) variable \<Rightarrow> (pyval, string option) variable
     \<Rightarrow> (pyval, string option) variable \<Rightarrow> (pyval, string option) variable
     \<Rightarrow> (pyval, string option) variable \<Rightarrow> (pyval, string option) variable
     \<Rightarrow> string option \<Rightarrow> (string \<times> pyval) list \<Rightarrow> error + area" where
  "from_params str_to_float area_id proj_dict p shape top_left_extent center area_extent
       resolution radius units kwargs =
     (let description = kwargs_get kwargs ''description'' (PyStr area_id);
          proj_id = kwargs_get kwargs ''proj_id'' PyNone;
          kwargs = AList.delete ''proj_id'' (AList.delete ''description'' kwargs)
      in
      bind_err (resolved_parameters str_to_float proj_dict p shape top_left_extent center
                  area_extent resolution radius units) (\<lambda>(area_extent, shape).
      make_area area_id description proj_id proj_dict shape area_extent kwargs))"

section \<open>Loading areas\<close>

text \<open>
  \<^verbatim>\<open>load_area\<close> returns either one definition or a list of them: the two shapes of
  its result are the constructors of \<open>loaded\<close>.
\<close>

datatype 'a loaded = Single 'a | Several "'a list"

section \<open>The legacy area file parser\<close>

text \<open>
  The state of the scan of \<^verbatim>\<open>_parse_legacy_area_file\<close>: the flag \<^verbatim>\<open>in_area\<close>, the
  identifier of the last \<^verbatim>\<open>REGION\<close> line, the lines collected for the open block and
  the definitions found so far (\<open>None\<close> is Python's \<^verbatim>\<open>None\<close> placeholder of a requested
  area not found yet). \<^verbatim>\<open>area_id\<close> and \<^verbatim>\<open>area_content\<close> are unbound in the source until
  the first assignment and are never read before it; the model starts them empty.

  \<^verbatim>\<open>_create_area\<close> parses the collected block with the external \<^verbatim>\<open>ConfigObj\<close> reader and
  builds the definition with \<^verbatim>\<open>from_params\<close>; the scan only calls it and lets its
  exceptions through, so it is the parameter \<open>create_area\<close> of the model. The lines
  that \<^verbatim>\<open>_read_legacy_area_file_lines\<close> yields (read from files or split from the
  content string) are the parameter \<open>area_file\<close>.
\<close>

record 'a scan =
  in_area :: bool
  area_id :: string
  area_content :: string
  area_defs :: "'a option list"

definition region_id :: "string \<Rightarrow> string" where
  "region_id line = strip (replace (replace line ''REGION:'' '''') ''{'' '''')"

text \<open>\<^verbatim>\<open>area_list.index(area_id)\<close>: the first position of the name, or \<^verbatim>\<open>ValueError\<close>.\<close>

fun index :: "string list \<Rightarrow> string \<Rightarrow> nat option" where
  "index [] x = None"
| "index (y # ys) x = (if y = x then Some 0 else map_option Suc (index ys x))"

definition scan_line ::
  "(string \<Rightarrow> string \<Rightarrow> error + 'a) \<Rightarrow> string list \<Rightarrow> bool \<Rightarrow> 'a scan \<Rightarrow> string
     \<Rightarrow> error + 'a scan" where
  "scan_line create_area area_list select_all_areas st line =
     (if \<not> in_area st then
        (if contains line ''REGION'' then
           (let aid = region_id line in
            if aid \<in> set area_list \<or> select_all_areas
            then Inr (st\<lparr>in_area := True, area_id := aid, area_content := ''''\<rparr>)
            else Inr (st\<lparr>area_id := aid\<rparr>))
         else Inr st)
      else if contains line ''};'' then
        (case create_area (area_id st) (area_content st) of
           Inl e \<Rightarrow> Inl e
         | Inr a \<Rightarrow>
             (if select_all_areas
              then Inr (st\<lparr>in_area := False, area_defs := area_defs st @ [Some a]\<rparr>)
              else (case index area_list (area_id st) of
                      None \<Rightarrow> Inl (ValueError (NotInList (area_id st)))
                    | Some i \<Rightarrow>
                        Inr (st\<lparr>in_area := False,
                                 area_defs := (area_defs st)[i := Some a]\<rparr>))))
      else Inr (st\<lparr>area_content := area_content st @ line\<rparr>))"

fun scan_lines ::
  "(string \<Rightarrow> string \<Rightarrow> error + 'a) \<Rightarrow> string list \<Rightarrow> bool \<Rightarrow> 'a scan \<Rightarrow> string list
     \<Rightarrow> error + 'a scan" where
  "scan_lines create_area area_list select_all_areas st [] = Inr st"
| "scan_lines create_area area_list select_all_areas st (line # rest) =
     (case scan_line create_area area_list select_all_areas st line of
        Inl e \<Rightarrow> Inl e
      | Inr st' \<Rightarrow> scan_lines create_area area_list select_all_areas st' rest)"

text \<open>The message of \<^verbatim>\<open>AreaNotFound\<close>; \<open>CHR 0x22\<close> is the double quote.\<close>

definition not_found_message :: "string \<Rightarrow> string \<Rightarrow> string" where
  "not_found_message area_name area_file_name =
     ''Area '' @ [CHR 0x22] @ area_name @ [CHR 0x22] @ '' not found in file '' @
     [CHR 0x22] @ area_file_name @ [CHR 0x22]"

text \<open>
  The final loop over \<^verbatim>\<open>enumerate(area_defs)\<close>: the first \<^verbatim>\<open>None\<close> raises, with the
  requested name at the same position.
\<close>

fun check_found :: "string \<Rightarrow> string list \<Rightarrow> 'a option list \<Rightarrow> error + 'a list" where
  "check_found area_file_name area_list [] = Inr []"
| "check_found area_file_name area_list (None # ds) =
     (case area_list of
        [] \<Rightarrow> Inl IndexError
      | n # ns \<Rightarrow> Inl (AreaNotFound (not_found_message n area_file_name)))"
| "check_found area_file_name area_list (Some a # ds) =
     (case check_found area_file_name (tl area_list) ds of
        Inl e \<Rightarrow> Inl e
      | Inr as \<Rightarrow> Inr (a # as))"

text \<open>
  The state before the first line: no definitions when all areas are selected, one
  \<^verbatim>\<open>None\<close> for each requested name otherwise.
\<close>

definition scan_start :: "string list \<Rightarrow> 'a scan" where
  "scan_start area_list =
     \<lparr>in_area = False, area_id = '''', area_content = '''',
      area_defs = (if length area_list = 0 then [] else map (\<lambda>i. None) area_list)\<rparr>"

definition parse_legacy_area_file ::
  "(string \<Rightarrow> string \<Rightarrow> error + 'a) \<Rightarrow> string \<Rightarrow> string list \<Rightarrow> string list
     \<Rightarrow> error + 'a list" where
  "parse_legacy_area_file create_area area_file_name area_file regions =
     (let area_list = regions;
          select_all_areas = (length area_list = 0)
      in case scan_lines create_area area_list select_all_areas (scan_start area_list)
                area_file of
           Inl e \<Rightarrow> Inl e
         | Inr st \<Rightarrow>
             (if \<not> select_all_areas then check_found area_file_name area_list (area_defs st)
              else Inr (map the (area_defs st))))"

text \<open>
  \<^verbatim>\<open>parse_area_file\<close> tries the YAML parser and falls back to the legacy parser on a
  \<^verbatim>\<open>ScannerError\<close>. What \<^verbatim>\<open>_parse_yaml_area_file\<close> makes of the source (it reads files
  with the external \<^verbatim>\<open>yaml\<close> package) is the parameter \<open>yaml_result\<close>.
\<close>

definition parse_area_file ::
  "error + 'a list \<Rightarrow> (string \<Rightarrow> string \<Rightarrow> error + 'a) \<Rightarrow> string \<Rightarrow> string list
     \<Rightarrow> string list \<Rightarrow> error + 'a list" where
  "parse_area_file yaml_result create_area area_file_name area_file regions =
     (case yaml_result of
        Inl ScannerError \<Rightarrow> parse_legacy_area_file create_area area_file_name area_file regions
      | Inl e \<Rightarrow> Inl e
      | Inr area_list \<Rightarrow> Inr area_list)"

definition load_area ::
  "error + 'a list \<Rightarrow> (string \<Rightarrow> string \<Rightarrow> error + 'a) \<Rightarrow> string \<Rightarrow> string list
     \<Rightarrow> string list \<Rightarrow> error + 'a loaded" where
  "load_area yaml_result create_area area_file_name area_file regions =
     (case parse_area_file yaml_result create_area area_file_name area_file regions of
        Inl e \<Rightarrow> Inl e
      | Inr area_list \<Rightarrow>
          (if length area_list = 1 then Inr (Single (area_list ! 0))
           else Inr (Several area_list)))"

section \<open>The unit converter on floats\<close>

text \<open>
  The definitions above hold a Python float as a real number. A float can also be NaN
  (\<^verbatim>\<open>float('nan')\<close> passes \<^verbatim>\<open>_verify_list\<close>), and \<^verbatim>\<open>_convert_units\<close> is defined here
  a second time on floats that can be: a float is a real number or \<open>NaN\<close>. An arithmetic
  operation with a NaN operand gives NaN, \<^verbatim>\<open>abs(nan)\<close> is NaN, and every comparison
  with NaN is false. The rounding of the arithmetic and the infinities are left out, as
  above: the result of an operation on numbers is the exact number.
\<close>

datatype pyfloat = Float real | NaN

fun float_abs :: "pyfloat \<Rightarrow> pyfloat" where
  "float_abs (Float x) = Float \<bar>x\<bar>"
| "float_abs NaN = NaN"

fun float_add :: "pyfloat \<Rightarrow> pyfloat \<Rightarrow> pyfloat" where
  "float_add (Float x) (Float y) = Float (x + y)"
| "float_add a b = NaN"

fun float_sub :: "pyfloat \<Rightarrow> pyfloat \<Rightarrow> pyfloat" where
  "float_sub (Float x) (Float y) = Float (x - y)"
| "float_sub a b = NaN"

fun float_mul :: "pyfloat \<Rightarrow> pyfloat \<Rightarrow> pyfloat" where
  "float_mul (Float x) (Float y) = Float (x * y)"
| "float_mul a b = NaN"

fun float_less :: "pyfloat \<Rightarrow> pyfloat \<Rightarrow> bool" where
  "float_less (Float x) (Float y) = (x < y)"
| "float_less a b = False"

fun float_less_eq :: "pyfloat \<Rightarrow> pyfloat \<Rightarrow> bool" where
  "float_less_eq (Float x) (Float y) = (x \<le> y)"
| "float_less_eq a b = False"

text \<open>The projection on floats, and the call with two positional arguments.\<close>

record float_proj =
  float_is_latlong :: bool
  float_transform ::
    "pyfloat \<Rightarrow> pyfloat \<Rightarrow> bool \<Rightarrow> bool \<Rightarrow> bool \<Rightarrow> error + pyfloat \<times> pyfloat"

definition float_call ::
  "float_proj \<Rightarrow> pyfloat list \<Rightarrow> bool \<Rightarrow> bool \<Rightarrow> bool \<Rightarrow> error + pyfloat list" where
  "float_call p args radians inverse_flag errcheck =
     (case args of
        [x, y] \<Rightarrow>
          (case float_transform p x y radians inverse_flag errcheck of
             Inl e \<Rightarrow> Inl e
           | Inr xy \<Rightarrow> Inr [fst xy, snd xy])
      | _ \<Rightarrow> Inl TypeError)"

text \<open>\<^verbatim>\<open>_sign\<close>: \<^verbatim>\<open>num < 0\<close> is false for NaN, so the sign of NaN is 1.\<close>

definition float_sign :: "pyfloat \<Rightarrow> pyfloat" where
  "float_sign num = (if float_less num (Float 0) then Float (- 1) else Float 1)"

definition float_round_pole :: "pyfloat list \<Rightarrow> real \<Rightarrow> real \<Rightarrow> error + pyfloat list" where
  "float_round_pole center pole tolerance =
     (case center of
        c0 # c1 # rest \<Rightarrow>
          Inr (if float_less (float_abs (float_sub (float_abs c1) (Float pole)))
                    (Float tolerance)
               then [c0, float_mul (float_sign c1) (Float pole)] else center)
      | _ \<Rightarrow> Inl IndexError)"

definition float_round_poles ::
  "pyfloat list \<Rightarrow> string \<Rightarrow> float_proj \<Rightarrow> error + pyfloat list" where
  "float_round_poles center units p =
     (let error = 1 / 10000 in
      bind_err
        (if contains units ''m''
         then bind_err (float_call p center False True True) (\<lambda>center.
              bind_err (float_round_pole center 90 error) (\<lambda>center.
              float_call p center False False True))
         else Inr center) (\<lambda>center.
      bind_err
        (if contains units ''deg'' \<or> contains units degree_sign
         then float_round_pole center 90 error
         else Inr center) (\<lambda>center.
      if contains units ''rad''
      then float_round_pole center (math_pi / 2) (error * math_pi / 180)
      else Inr center)))"

definition float_angle_to_distance ::
  "pyfloat list \<Rightarrow> string \<Rightarrow> float_proj \<Rightarrow> pyfloat list \<Rightarrow> error + pyfloat list" where
  "float_angle_to_distance var units p center =
     (let rad = contains units ''rad'' in
      case center of
        [c0, c1] \<Rightarrow>
          bind_err (float_transform p c0 c1 rad True True) (\<lambda>center_as_angle.
          bind_err (float_transform p c0 c1 False True False) (\<lambda>lonlat.
          if float_less (float_abs (float_sub (float_abs (snd lonlat)) (Float 90)))
               (Float (1 / 10 ^ 10))
          then
            (case var of
               [] \<Rightarrow> Inl IndexError
             | v0 # vs \<Rightarrow>
                 bind_err (float_transform p (Float 0)
                   (float_sub (snd center_as_angle)
                      (float_mul (float_sign (snd center_as_angle)) (float_abs v0)))
                   rad False True)
                 (\<lambda>a.
                 case vs of
                   [] \<Rightarrow> Inl IndexError
                 | v1 # vs' \<Rightarrow>
                     bind_err (float_transform p (Float 0)
                       (float_sub (snd center_as_angle)
                          (float_mul (float_sign (snd center_as_angle)) (float_abs v1)))
                       rad False True)
                     (\<lambda>b. Inr [float_abs (float_add (snd a) c1),
                               float_abs (float_add (snd b) c1)])))
          else
            (case var of
               [] \<Rightarrow> Inl IndexError
             | v0 # vs \<Rightarrow>
                 bind_err (float_transform p (float_sub (fst center_as_angle) v0)
                   (snd center_as_angle) rad False True)
                 (\<lambda>a.
                 case vs of
                   [] \<Rightarrow> Inl IndexError
                 | v1 # vs' \<Rightarrow>
                     bind_err (float_transform p (fst center_as_angle)
                       (float_sub (snd center_as_angle) v1) rad False True)
                     (\<lambda>b. Inr [float_abs (float_sub c0 (fst a)),
                               float_abs (float_sub c1 (snd b))])))))
      | _ \<Rightarrow> Inl TypeError)"

definition float_own_units ::
  "(pyfloat list, string option) variable \<Rightarrow> projval \<Rightarrow> error + projval \<times> pyfloat list" where
  "float_own_units var units =
     (case var of
        DataArray xs (Some u) \<Rightarrow> Inr (PStr u, xs)
      | DataArray xs None \<Rightarrow> Inl AttributeError
      | Plain xs \<Rightarrow> Inr (units, xs))"

definition float_check_units :: "string \<Rightarrow> projval \<Rightarrow> float_proj \<Rightarrow> error + string" where
  "float_check_units name units p =
     bind_err
       (if float_is_latlong p
        then (case units of PStr u \<Rightarrow> Inr (contains u ''m'') | _ \<Rightarrow> Inl TypeError)
        else Inr False) (\<lambda>latlong_in_meters.
     if latlong_in_meters then Inl (ValueError (LatlongMeters name))
     else (case units of
             PStr u \<Rightarrow>
               if u \<in> set viable_units then Inr u
               else Inl (ValueError (InvalidUnits name units))
           | _ \<Rightarrow> Inl (ValueError (InvalidUnits name units))))"

definition float_convert_value ::
  "pyfloat list \<Rightarrow> string \<Rightarrow> string \<Rightarrow> float_proj \<Rightarrow> bool \<Rightarrow> pyfloat list option
     \<Rightarrow> error + pyfloat list" where
  "float_convert_value var name units p inverse_flag center =
     (if (contains units degree_sign \<or> contains units ''deg'' \<or> contains units ''rad'')
           \<and> \<not> inverse_flag
      then
        (if name \<in> set [''radius'', ''resolution'']
         then (case center of
                 None \<Rightarrow> Inl (ValueError MissingCenter)
               | Some c \<Rightarrow> float_angle_to_distance var units p c)
         else float_call p var (contains units ''rad'') False True)
      else if inverse_flag \<and> contains units ''m''
      then float_call p var False True True
      else Inr var)"

definition float_abs_components :: "string \<Rightarrow> pyfloat list \<Rightarrow> error + pyfloat list" where
  "float_abs_components name var =
     (if name \<in> set [''radius'', ''resolution'']
      then (case var of
              v0 # v1 # rest \<Rightarrow> Inr [float_abs v0, float_abs v1]
            | _ \<Rightarrow> Inl IndexError)
      else Inr var)"

definition float_convert_units ::
  "(pyfloat list, string option) variable option \<Rightarrow> string \<Rightarrow> projval \<Rightarrow> float_proj \<Rightarrow> bool
     \<Rightarrow> pyfloat list option \<Rightarrow> error + pyfloat list option" where
  "float_convert_units var name units p inverse_flag center =
     (case var of
        None \<Rightarrow> Inr None
      | Some v \<Rightarrow>
          bind_err (float_own_units v units) (\<lambda>(units, var).
          bind_err (float_check_units name units p) (\<lambda>units.
          bind_err (if name = ''center'' then float_round_poles var units p else Inr var)
            (\<lambda>var.
          bind_err (float_convert_value var name units p inverse_flag center) (\<lambda>var.
          bind_err (float_abs_components name var) (\<lambda>var.
          Inr (Some var)))))))"

text \<open>
  A number taken as a float, and a projection on numbers taken as a projection on floats
  (on a NaN argument it returns NaN for both coordinates).
\<close>

definition float_variable ::
  "(real list, string option) variable \<Rightarrow> (pyfloat list, string option) variable" where
  "float_variable var =
     (case var of Plain xs \<Rightarrow> Plain (map Float xs) | DataArray xs u \<Rightarrow> DataArray (map Float xs) u)"

definition float_projection :: "proj \<Rightarrow> float_proj" where
  "float_projection p =
     \<lparr>float_is_latlong = is_latlong p,
      float_transform = (\<lambda>x y radians inverse_flag errcheck.
        case (x, y) of
          (Float a, Float b) \<Rightarrow>
            (case transform p a b radians inverse_flag errcheck of
               Inl e \<Rightarrow> Inl e
             | Inr xy \<Rightarrow> Inr (Float (fst xy), Float (snd xy)))
        | _ \<Rightarrow> Inr (NaN, NaN))\<rparr>"

definition float_result :: "error + real list option \<Rightarrow> error + pyfloat list option" where
  "float_result r =
     (case r of Inl e \<Rightarrow> Inl e | Inr None \<Rightarrow> Inr None | Inr (Some xs) \<Rightarrow> Inr (Some (map Float xs)))"

section \<open>Auxiliary notions for the properties\<close>

text \<open>
  What holds of every entry of a dictionary read from a string: the key has no plus
  sign, space or equals sign, and a string value has no plus sign or space and is not
  the text of a float.
\<close>

definition read_entry :: "(string \<Rightarrow> real option) \<Rightarrow> string \<times> projval \<Rightarrow> bool" where
  "read_entry str_to_float e =
     (CHR ''+'' \<notin> set (fst e) \<and> CHR '' '' \<notin> set (fst e) \<and> CHR ''='' \<notin> set (fst e)
      \<and> (case snd e of
            PStr t \<Rightarrow> str_to_float t = None \<and> CHR '' '' \<notin> set t \<and> CHR ''+'' \<notin> set t
          | _ \<Rightarrow> True))"

text \<open>
  The entries that \<^verbatim>\<open>proj4_dict_to_str\<close> writes so that they are read back: a key alone
  is one of the three keys the source writes without a value and these keys have no
  value, and the text of a float has no space and reads back as the same float once the
  plus signs are removed.
\<close>

definition written_back ::
  "(string \<Rightarrow> real option) \<Rightarrow> (real \<Rightarrow> string) \<Rightarrow> string \<times> projval \<Rightarrow> bool" where
  "written_back str_to_float float_to_str e =
     ((snd e = PTrue) = (fst e \<in> set [''no_defs'', ''no_off'', ''no_rot''])
      \<and> (case snd e of
            PFloat r \<Rightarrow>
              CHR '' '' \<notin> set (float_to_str r)
              \<and> str_to_float (filter (\<lambda>c. c \<noteq> CHR ''+'') (float_to_str r)) = Some r
          | _ \<Rightarrow> True))"

section \<open>Stand-ins for the examples\<close>

text \<open>
  The examples below run the model on given inputs and need values for its parameters:
  a projection that is not geographic and maps every point to itself (on numbers and on
  floats), a
  \<^verbatim>\<open>_create_area\<close> that returns the identifier and the content of the block it is
  given, and \<^verbatim>\<open>float\<close> and the text of a float on the few texts and the one float that
  occur (\<^verbatim>\<open>float('0')\<close> and \<^verbatim>\<open>float('0.0')\<close> are \<open>0.0\<close>, written \<^verbatim>\<open>0.0\<close>; the words of
  the examples are no floats).
\<close>

definition flat :: proj where
  "flat = \<lparr>is_latlong = False, transform = (\<lambda>x y radians inverse_flag errcheck. Inr (x, y))\<rparr>"

definition keep_block :: "string \<Rightarrow> string \<Rightarrow> error + string \<times> string" where
  "keep_block ident content = Inr (ident, content)"

definition example_float :: "string \<Rightarrow> real option" where
  "example_float s = (if s = ''0'' \<or> s = ''0.0'' then Some 0 else None)"

definition example_repr :: "real \<Rightarrow> string" where
  "example_repr r = ''0.0''"

definition float_flat :: float_proj where
  "float_flat =
     \<lparr>float_is_latlong = False,
      float_transform = (\<lambda>x y radians inverse_flag errcheck. Inr (x, y))\<rparr>"

section \<open>Properties of the inference engine\<close>

lemma bind_err_simps [simp]:
  "bind_err (Inr x) f = f x" "bind_err (Inl e) f = Inl e"
  by (simp_all add: bind_err_def)

lemma bind_err_Inr:
  "bind_err m f = Inr y \<Longrightarrow> \<exists>x. m = Inr x \<and> f x = Inr y"
  by (cases m) simp_all

text \<open>The definitions to unfold when the engine is run on given numbers.\<close>

lemmas engine_defs =
  resolved_parameters_def verify_list_def format_list_def is_list_or_tuple_def py_iter_def
  py_float_def data_def get_converted_lists_def convert_units_def own_units_def
  check_units_def viable_units_def convert_value_def abs_components_def degree_sign_def
  startswith_def slice_def extrapolate_information_def extrapolate_radius_def
  extrapolate_shape_def extrapolate_area_extent_def validate_variable_def allclose_def
  isclose_def round_poles_def round_pole_def call_def sign_def flat_def

subsection \<open>The validator\<close>

lemma validate_variable_result:
  "validate_variable var new_var n src = Inr x \<Longrightarrow> x = new_var"
  by (auto simp: validate_variable_def split: option.splits sum.splits if_splits)

text \<open>
  Claim C3. The validator raises the conflicting-data error exactly when a value was given
  and \<^verbatim>\<open>allclose\<close> finds it not close to the derived one. When no value was given, or the
  given value is close, it returns the derived value (not the given one). For two values
  of the same length the closeness test is the element-wise one.
\<close>

theorem validate_variable_conflict_iff:
  "(validate_variable var new_var var_name input_list
      = Inl (ValueError (ConflictingData var_name input_list)))
     = (\<exists>v. var = Some v \<and> allclose v new_var = Inr False)
   \<and> validate_variable None new_var var_name input_list = Inr new_var
   \<and> (allclose v new_var = Inr True \<longrightarrow>
        validate_variable (Some v) new_var var_name input_list = Inr new_var)
   \<and> (length v = length new_var \<longrightarrow>
        validate_variable (Some v) new_var var_name input_list =
          (if list_all2 isclose v new_var then Inr new_var
           else Inl (ValueError (ConflictingData var_name input_list))))"
  by (auto simp: validate_variable_def allclose_def split: option.splits sum.splits list.splits)

text \<open>
  A center given as \<open>(0, 0)\<close> agrees with the derived \<open>(1e-9, 0)\<close> and is replaced by it;
  against the derived \<open>(1, 1)\<close> it is a conflict.
\<close>

theorem validate_variable_conflict_iff_witness:
  "validate_variable (Some [0, 0]) [1 / 10 ^ 9, 0] ''center'' [''area_extent'']
     = Inr [1 / 10 ^ 9, 0]
   \<and> validate_variable (Some [0, 0]) [1, 1] ''center'' [''area_extent'']
     = Inl (ValueError (ConflictingData ''center'' [''area_extent'']))"
  using validate_variable_conflict_iff [of "Some [0, 0]" "[1 / 10 ^ 9, 0]" "''center''"
      "[''area_extent'']" "[0, 0]"]
    validate_variable_conflict_iff [of "Some [0, 0]" "[1, 1]" "''center''"
      "[''area_extent'']" "[0, 0]"]
  by (simp add: isclose_def)

subsection \<open>The shape normalizer\<close>

lemma verify_list_length:
  "verify_list f name var len = Inr (Some v) \<Longrightarrow> length (data v) = len"
  unfolding verify_list_def
  by (auto split: if_splits sum.splits error.splits)

text \<open>
  Claim C7. A number given for \<^verbatim>\<open>radius\<close> or \<^verbatim>\<open>resolution\<close> becomes the pair of that
  number with itself (also inside a \<^verbatim>\<open>DataArray\<close>, which keeps its units), and the pair
  passes the length check for the length 2 that \<^verbatim>\<open>from_params\<close> asks of both; a number
  given for any other quantity fails as not list-like, whatever the length asked.
\<close>

theorem scalar_broadcast_or_not_list_like:
  "(name \<in> {''radius'', ''resolution''} \<longrightarrow>
      format_list str_to_float (PyNum x) name = Inr [x, x]
    \<and> verify_list str_to_float name (Plain (PyNum x)) 2 = Inr (Some (Plain [x, x]))
    \<and> verify_list str_to_float name (DataArray (PyNum x) (Some u)) 2
        = Inr (Some (DataArray [x, x] (Some u)))
    \<and> (len \<noteq> 2 \<longrightarrow>
         verify_list str_to_float name (Plain (PyNum x)) len
           = Inl (ValueError (WrongLength name len 2))))
   \<and> (name \<notin> {''radius'', ''resolution''} \<longrightarrow>
      verify_list str_to_float name (Plain (PyNum x)) len = Inl (ValueError (NotListLike name))
    \<and> verify_list str_to_float name (DataArray (PyNum x) units) len
        = Inl (ValueError (NotListLike name)))"
  by (auto simp: verify_list_def format_list_def is_list_or_tuple_def py_float_def py_iter_def
      data_def split: option.splits)

theorem scalar_broadcast_or_not_list_like_witness:
  "verify_list example_float ''resolution'' (Plain (PyNum 500)) 2 = Inr (Some (Plain [500, 500]))
   \<and> verify_list example_float ''radius'' (Plain (PyNum 500)) 2 = Inr (Some (Plain [500, 500]))
   \<and> verify_list example_float ''shape'' (Plain (PyNum 500)) 2
        = Inl (ValueError (NotListLike ''shape''))
   \<and> verify_list example_float ''center'' (Plain (PyNum 500)) 2
        = Inl (ValueError (NotListLike ''center''))
   \<and> verify_list example_float ''top_left_extent'' (Plain (PyNum 500)) 2
        = Inl (ValueError (NotListLike ''top_left_extent''))
   \<and> verify_list example_float ''area_extent'' (Plain (PyNum 500)) 4
        = Inl (ValueError (NotListLike ''area_extent''))"
  using
    scalar_broadcast_or_not_list_like
      [where name = "''resolution''" and str_to_float = example_float and x = 500 and len = 2]
    scalar_broadcast_or_not_list_like
      [where name = "''radius''" and str_to_float = example_float and x = 500 and len = 2]
    scalar_broadcast_or_not_list_like
      [where name = "''shape''" and str_to_float = example_float and x = 500 and len = 2]
    scalar_broadcast_or_not_list_like
      [where name = "''center''" and str_to_float = example_float and x = 500 and len = 2]
    scalar_broadcast_or_not_list_like
      [where name = "''top_left_extent''" and str_to_float = example_float and x = 500
         and len = 2]
    scalar_broadcast_or_not_list_like
      [where name = "''area_extent''" and str_to_float = example_float and x = 500 and len = 4]
  by simp

subsection \<open>The unit converter\<close>

text \<open>
  The last statement of \<^verbatim>\<open>_convert_units\<close> leaves a radius or a resolution as a pair of
  absolute values.
\<close>

lemma convert_units_abs_pair:
  assumes "name \<in> {''radius'', ''resolution''}"
    and "convert_units (Some v) name units p inverse_flag center = Inr (Some r)"
  shows "\<exists>a b. r = [\<bar>a\<bar>, \<bar>b\<bar>]"
proof -
  from assms(2) obtain var where "abs_components name var = Inr r"
    unfolding convert_units_def
    by (auto dest!: bind_err_Inr split: prod.splits)
  with assms(1) show ?thesis
    by (auto simp: abs_components_def split: list.splits)
qed

lemma convert_units_None:
  "convert_units None name units p inverse_flag center = Inr None"
  by (simp add: convert_units_def)

lemma convert_units_pair:
  assumes "name \<in> {''radius'', ''resolution''}"
    and "convert_units var name units p inverse_flag center = Inr (Some r)"
  shows "\<exists>a b. r = [a, b]"
proof (cases var)
  case None
  with assms(2) show ?thesis by (simp add: convert_units_None)
next
  case (Some v)
  with assms convert_units_abs_pair [of name v units p inverse_flag center r]
  show ?thesis by blast
qed

subsection \<open>The unit converter on floats\<close>

text \<open>
  On numbers the converter on floats is the converter above: it is the same function, and
  differs only where a component is NaN.
\<close>

lemma lift_bind:
  "(\<And>x. g' (f x) = map_sum id h (g x)) \<Longrightarrow>
     bind_err (map_sum id f m) g' = map_sum id h (bind_err m g)"
  by (cases m) simp_all

lemma lift_Inr: "Inr (f x) = map_sum id f (Inr x)"
  by simp

lemma float_transform_numbers:
  "float_transform (float_projection p) (Float a) (Float b) r i e
     = map_sum id (map_prod Float Float) (transform p a b r i e)"
  by (cases "transform p a b r i e") (auto simp: float_projection_def split: prod.splits)

lemma float_call_numbers:
  "float_call (float_projection p) (map Float args) r i e
     = map_sum id (map Float) (call p args r i e)"
proof (cases args)
  case Nil
  then show ?thesis by (simp add: float_call_def call_def)
next
  case (Cons x xs)
  show ?thesis
  proof (cases xs)
    case Nil
    with Cons show ?thesis by (simp add: float_call_def call_def)
  next
    case (Cons y ys)
    with \<open>args = x # xs\<close> show ?thesis
      by (cases ys; cases "transform p x y r i e")
         (simp_all add: float_call_def call_def float_transform_numbers)
  qed
qed

lemma float_sign_number: "float_sign (Float x) = Float (sign x)"
  by (simp add: float_sign_def sign_def)

lemma float_round_pole_numbers:
  "float_round_pole (map Float c) pole tol = map_sum id (map Float) (round_pole c pole tol)"
  by (cases c; cases "tl c")
     (auto simp: float_round_pole_def round_pole_def float_sign_number)

lemma float_round_poles_numbers:
  "float_round_poles (map Float c) units (float_projection p)
     = map_sum id (map Float) (round_poles c units p)"
proof -
  have first: "(if contains units ''m''
         then bind_err (float_call (float_projection p) (map Float c) False True True) (\<lambda>center.
              bind_err (float_round_pole center 90 (1 / 10000)) (\<lambda>center.
              float_call (float_projection p) center False False True))
         else Inr (map Float c))
      = map_sum id (map Float) (if contains units ''m''
         then bind_err (call p c False True True) (\<lambda>center.
              bind_err (round_pole center 90 (1 / 10000)) (\<lambda>center.
              call p center False False True))
         else Inr c)"
  proof (cases "contains units ''m''")
    case True
    have "bind_err (map_sum id (map Float) (call p c False True True)) (\<lambda>center.
              bind_err (float_round_pole center 90 (1 / 10000)) (\<lambda>center.
              float_call (float_projection p) center False False True))
       = map_sum id (map Float) (bind_err (call p c False True True) (\<lambda>center.
              bind_err (round_pole center 90 (1 / 10000)) (\<lambda>center.
              call p center False False True)))"
    proof (rule lift_bind)
      fix x
      show "bind_err (float_round_pole (map Float x) 90 (1 / 10000))
              (\<lambda>center. float_call (float_projection p) center False False True)
          = map_sum id (map Float) (bind_err (round_pole x 90 (1 / 10000))
              (\<lambda>center. call p center False False True))"
        unfolding float_round_pole_numbers
        by (rule lift_bind) (rule float_call_numbers)
    qed
    with True show ?thesis by (simp add: float_call_numbers)
  next
    case False
    then show ?thesis by simp
  qed
  have second: "(if contains units ''deg'' \<or> contains units degree_sign
         then float_round_pole (map Float x) 90 (1 / 10000)
         else Inr (map Float x))
      = map_sum id (map Float) (if contains units ''deg'' \<or> contains units degree_sign
         then round_pole x 90 (1 / 10000)
         else Inr x)" for x
    by (simp add: float_round_pole_numbers)
  have third: "(if contains units ''rad''
      then float_round_pole (map Float x) (math_pi / 2) (1 / 10000 * math_pi / 180)
      else Inr (map Float x))
      = map_sum id (map Float) (if contains units ''rad''
      then round_pole x (math_pi / 2) (1 / 10000 * math_pi / 180)
      else Inr x)" for x
    by (simp add: float_round_pole_numbers)
  show ?thesis
    unfolding float_round_poles_def round_poles_def Let_def first
    by (rule lift_bind, unfold second, rule lift_bind, rule third)
qed

lemma bind_err_map_sum:
  "bind_err (map_sum id f m) g = bind_err m (\<lambda>x. g (f x))"
  by (cases m) simp_all

lemma map_sum_bind_err:
  "map_sum id f (bind_err m g) = bind_err m (\<lambda>x. map_sum id f (g x))"
  by (cases m) simp_all

lemma float_angle_to_distance_numbers:
  "float_angle_to_distance (map Float var) units (float_projection p) (map Float c)
     = map_sum id (map Float) (angle_to_distance var units p c)"
proof (cases c)
  case Nil
  then show ?thesis by (simp add: float_angle_to_distance_def angle_to_distance_def)
next
  case (Cons c0 cs)
  show ?thesis
  proof (cases cs)
    case Nil
    with Cons show ?thesis by (simp add: float_angle_to_distance_def angle_to_distance_def)
  next
    case (Cons c1 cs')
    show ?thesis
    proof (cases cs')
      case (Cons c2 cs'')
      with \<open>c = c0 # cs\<close> \<open>cs = c1 # cs'\<close> show ?thesis
        by (simp add: float_angle_to_distance_def angle_to_distance_def)
    next
      case Nil
      with \<open>c = c0 # cs\<close> \<open>cs = c1 # cs'\<close> have c: "c = [c0, c1]" by simp
      have shape: "var = [] \<or> (\<exists>v0. var = [v0]) \<or> (\<exists>v0 v1 vs. var = v0 # v1 # vs)"
        by (cases var; cases "tl var") auto
      then show ?thesis
        unfolding c float_angle_to_distance_def angle_to_distance_def Let_def
        by (elim disjE exE)
           (simp_all add: float_transform_numbers bind_err_map_sum map_sum_bind_err
              float_sign_number if_distrib [of "map_sum id (map Float)"] cong: if_cong)
    qed
  qed
qed

lemma float_convert_value_numbers:
  "float_convert_value (map Float var) name units (float_projection p) inverse_flag
       (map_option (map Float) center)
     = map_sum id (map Float) (convert_value var name units p inverse_flag center)"
  by (cases center)
     (simp_all add: float_convert_value_def convert_value_def float_call_numbers
        float_angle_to_distance_numbers)

lemma float_abs_components_numbers:
  "float_abs_components name (map Float var)
     = map_sum id (map Float) (abs_components name var)"
  by (cases var; cases "tl var")
     (auto simp: float_abs_components_def abs_components_def)

lemma float_check_units_numbers:
  "float_check_units name units (float_projection p) = check_units name units p"
  by (simp add: float_check_units_def check_units_def float_projection_def)

lemma float_convert_units_numbers:
  "float_convert_units (map_option float_variable var) name units (float_projection p)
       inverse_flag (map_option (map Float) center)
     = float_result (convert_units var name units p inverse_flag center)"
proof (cases var)
  case None
  then show ?thesis by (simp add: float_convert_units_def convert_units_def float_result_def)
next
  case (Some v)
  have tail: "bind_err (if name = ''center''
                 then float_round_poles (map Float xs) u (float_projection p)
                 else Inr (map Float xs)) (\<lambda>var.
          bind_err (float_convert_value var name u (float_projection p) inverse_flag
                      (map_option (map Float) center)) (\<lambda>var.
          bind_err (float_abs_components name var) (\<lambda>var. Inr (Some var))))
      = float_result (bind_err (if name = ''center'' then round_poles xs u p else Inr xs)
          (\<lambda>var.
          bind_err (convert_value var name u p inverse_flag center) (\<lambda>var.
          bind_err (abs_components name var) (\<lambda>var. Inr (Some var)))))" for xs u
  proof -
    have last: "bind_err (float_abs_components name (map Float x)) (\<lambda>var. Inr (Some var))
        = float_result (bind_err (abs_components name x) (\<lambda>var. Inr (Some var)))" for x
      by (cases "abs_components name x")
         (simp_all add: float_abs_components_numbers float_result_def)
    have mid: "bind_err (float_convert_value (map Float x) name u (float_projection p)
                  inverse_flag (map_option (map Float) center)) (\<lambda>var.
          bind_err (float_abs_components name var) (\<lambda>var. Inr (Some var)))
        = float_result (bind_err (convert_value x name u p inverse_flag center) (\<lambda>var.
          bind_err (abs_components name var) (\<lambda>var. Inr (Some var))))" for x
      by (cases "convert_value x name u p inverse_flag center")
         (simp_all add: float_convert_value_numbers last, simp add: float_result_def)
    show ?thesis
    proof (cases "name = ''center''")
      case True
      note mid' = mid [unfolded True]
      from True show ?thesis
        by (cases "round_poles xs u p")
           (simp_all add: float_round_poles_numbers mid', simp add: float_result_def)
    next
      case False
      then show ?thesis by (simp add: mid)
    qed
  qed
  show ?thesis
  proof (cases "own_units v units")
    case (Inl e)
    with Some show ?thesis
      by (cases v)
         (auto simp: float_convert_units_def convert_units_def float_own_units_def
            own_units_def float_variable_def float_result_def split: option.splits)
  next
    case (Inr ux)
    obtain u xs where ux: "ux = (u, xs)" by (cases ux)
    with Inr have fo: "float_own_units (float_variable v) units = Inr (u, map Float xs)"
      by (cases v)
         (auto simp: float_own_units_def own_units_def float_variable_def split: option.splits)
    show ?thesis
    proof (cases "check_units name u p")
      case (Inl e)
      with Some Inr ux fo show ?thesis
        by (simp add: float_convert_units_def convert_units_def float_check_units_numbers
            float_result_def)
    next
      case (Inr u')
      with Some \<open>own_units v units = Inr ux\<close> ux fo show ?thesis
        by (simp add: float_convert_units_def convert_units_def float_check_units_numbers tail)
    qed
  qed
qed

lemma float_abs_not_negative: "float_abs a = NaN \<or> float_less_eq (Float 0) (float_abs a)"
  by (cases a) simp_all

text \<open>
  Claim C8, as amended. Whenever the conversion of a radius or resolution returns a vector,
  whatever the units, the inverse flag and the center, the vector has two components and
  each of them is NaN or non-negative: a component that is not NaN is non-negative.
\<close>

theorem float_convert_units_radius_nonneg:
  assumes "name \<in> {''radius'', ''resolution''}"
    and "float_convert_units (Some v) name units p inverse_flag center = Inr (Some r)"
  shows "\<exists>a b. r = [a, b]
           \<and> (a = NaN \<or> float_less_eq (Float 0) a)
           \<and> (b = NaN \<or> float_less_eq (Float 0) b)"
proof -
  from assms(2) obtain var where "float_abs_components name var = Inr r"
    unfolding float_convert_units_def
    by (auto dest!: bind_err_Inr split: prod.splits)
  with assms(1) obtain v0 v1 where "r = [float_abs v0, float_abs v1]"
    by (auto simp: float_abs_components_def split: list.splits)
  then show ?thesis
    using float_abs_not_negative [of v0] float_abs_not_negative [of v1] by simp
qed

lemmas float_defs =
  float_convert_units_def float_own_units_def float_check_units_def viable_units_def
  float_round_poles_def float_round_pole_def float_convert_value_def
  float_angle_to_distance_def float_abs_components_def float_call_def float_sign_def
  degree_sign_def startswith_def float_flat_def

lemma float_meters_run:
  "float_convert_units (Some (Plain [Float (- 3), Float 4])) ''radius'' (PStr ''meters'')
     float_flat False None = Inr (Some [Float 3, Float 4])"
  by (simp add: float_defs)

lemma float_degrees_run:
  "float_convert_units (Some (DataArray [Float (- 3), Float 4] (Some ''deg'')))
     ''resolution'' (PStr ''meters'') float_flat False (Some [Float 0, Float 0])
   = Inr (Some [Float 3, Float 4])"
  by (simp add: float_defs)

lemma float_inverse_run:
  "float_convert_units (Some (Plain [Float (- 3), Float 5])) ''radius'' (PStr ''m'')
     float_flat True None = Inr (Some [Float 3, Float 5])"
  by (simp add: float_defs)

text \<open>
  The three paths of the conversion on the radius \<open>(-3, 4)\<close> or \<open>(-3, 5)\<close>: meters kept,
  degrees taken to meters around the center \<open>(0, 0)\<close>, and meters taken back.
\<close>

theorem float_convert_units_radius_nonneg_witness:
  "float_convert_units (Some (Plain [Float (- 3), Float 4])) ''radius'' (PStr ''meters'')
     float_flat False None = Inr (Some [Float 3, Float 4])
   \<and> float_convert_units (Some (DataArray [Float (- 3), Float 4] (Some ''deg'')))
     ''resolution'' (PStr ''meters'') float_flat False (Some [Float 0, Float 0])
     = Inr (Some [Float 3, Float 4])
   \<and> float_convert_units (Some (Plain [Float (- 3), Float 5])) ''radius'' (PStr ''m'')
     float_flat True None = Inr (Some [Float 3, Float 5])
   \<and> (\<exists>a b. [Float 3, Float 4] = [a, b]
           \<and> (a = NaN \<or> float_less_eq (Float 0) a)
           \<and> (b = NaN \<or> float_less_eq (Float 0) b))"
  using float_convert_units_radius_nonneg [OF _ float_meters_run]
    float_meters_run float_degrees_run float_inverse_run
  by simp

text \<open>
  Claim C8 as stated fails for a NaN component: \<^verbatim>\<open>abs(nan)\<close> is NaN, so the radius
  \<open>(nan, -1.0)\<close> in meters is returned as \<open>(nan, 1.0)\<close>, and \<^verbatim>\<open>nan >= 0\<close> is false.
\<close>

theorem float_convert_units_nan_counterexample:
  "float_convert_units (Some (Plain [NaN, Float (- 1)])) ''radius'' (PStr ''meters'')
     float_flat False None = Inr (Some [NaN, Float 1])
   \<and> \<not> float_less_eq (Float 0) NaN"
  by (simp add: float_defs)

subsection \<open>The derivation of the shape\<close>

lemma extrapolate_shape_result:
  "extrapolate_shape radius resolution shape = Inr (radius', shape') \<Longrightarrow>
     shape' = shape \<or> (\<exists>a b. shape' = Some [a, b])"
  unfolding extrapolate_shape_def
  by (auto split: option.splits list.splits if_splits dest!: bind_err_Inr validate_variable_result)

lemma extrapolate_information_shape:
  "extrapolate_information area_extent shape center radius resolution top_left_extent units p
     = Inr (area_extent', shape') \<Longrightarrow>
   shape' = shape \<or> (\<exists>a b. shape' = Some [a, b])"
  unfolding extrapolate_information_def
  by (auto dest!: bind_err_Inr split: prod.splits dest: extrapolate_shape_result)

text \<open>The first step of the engine leaves a radius of two components.\<close>

lemma extrapolate_radius_pair:
  assumes "extrapolate_radius area_extent center radius top_left_extent units p
             = Inr (center', Some rad, top_left_extent')"
  shows "\<exists>r0 r1. rad = [r0, r1]"
proof (cases area_extent)
  case (Some ae)
  with assms show ?thesis
    unfolding extrapolate_radius_def
    by (auto split: list.splits dest!: bind_err_Inr validate_variable_result)
next
  case None
  show ?thesis
  proof (cases "top_left_extent \<noteq> None \<and> center \<noteq> None")
    case True
    with assms None show ?thesis
      unfolding extrapolate_radius_def
      by (auto split: list.splits dest!: bind_err_Inr validate_variable_result)
  next
    case False
    with assms None have "convert_units radius ''radius'' units p False center = Inr (Some rad)"
      unfolding extrapolate_radius_def
      by (auto split: option.splits dest!: bind_err_Inr)
    then show ?thesis
      using convert_units_pair [of "''radius''" radius units p False center rad] by simp
  qed
qed

text \<open>
  Claim C2. Whenever the first step leaves a radius and the resolution converts to a
  vector (both are then in meters), they are pairs \<open>(r0, r1)\<close> and \<open>(s0, s1)\<close>, and the
  engine validates the given shape against \<open>(2 * r1 / s1, 2 * r0 / s0)\<close>, rows from the y
  components and columns from the x components: a result of the engine carries exactly
  this shape, and a given shape that is not close to it is a conflict. (A resolution with
  a zero component makes the division fail.)
\<close>

theorem shape_from_radius_and_resolution:
  assumes "extrapolate_radius area_extent center radius top_left_extent units p
             = Inr (center', Some rad, top_left_extent')"
    and "convert_units resolution ''resolution'' units p False center' = Inr (Some res)"
  shows "\<exists>r0 r1 s0 s1. rad = [r0, r1] \<and> res = [s0, s1]
       \<and> (s0 \<noteq> 0 \<and> s1 \<noteq> 0 \<longrightarrow>
           extrapolate_information area_extent shape center radius resolution top_left_extent
             units p
           = bind_err (validate_variable shape [2 * r1 / s1, 2 * r0 / s0]
                         ''shape'' [''radius'', ''resolution'']) (\<lambda>shape'.
             bind_err (extrapolate_area_extent area_extent center' (Some rad)
                         top_left_extent') (\<lambda>area_extent'.
             Inr (area_extent', Some shape')))
         \<and> (\<forall>area_extent' shape'.
              extrapolate_information area_extent shape center radius resolution
                top_left_extent units p = Inr (area_extent', shape')
              \<longrightarrow> shape' = Some [2 * r1 / s1, 2 * r0 / s0])
         \<and> (\<forall>given. shape = Some given \<and> allclose given [2 * r1 / s1, 2 * r0 / s0] = Inr False
              \<longrightarrow> extrapolate_information area_extent shape center radius resolution
                    top_left_extent units p
                  = Inl (ValueError (ConflictingData ''shape'' [''radius'', ''resolution'']))))
       \<and> (s0 = 0 \<or> s1 = 0 \<longrightarrow>
           extrapolate_information area_extent shape center radius resolution top_left_extent
             units p = Inl ZeroDivisionError)"
proof -
  from extrapolate_radius_pair [OF assms(1)] obtain r0 r1 where rad: "rad = [r0, r1]" by blast
  from convert_units_pair [OF _ assms(2)] obtain s0 s1 where res: "res = [s0, s1]" by auto
  have zero: "s0 = 0 \<or> s1 = 0 \<Longrightarrow>
      extrapolate_information area_extent shape center radius resolution top_left_extent
        units p = Inl ZeroDivisionError"
    using assms rad res by (auto simp: extrapolate_information_def extrapolate_shape_def)
  have main: "s0 \<noteq> 0 \<and> s1 \<noteq> 0 \<longrightarrow>
           extrapolate_information area_extent shape center radius resolution top_left_extent
             units p
           = bind_err (validate_variable shape [2 * r1 / s1, 2 * r0 / s0]
                         ''shape'' [''radius'', ''resolution'']) (\<lambda>shape'.
             bind_err (extrapolate_area_extent area_extent center' (Some rad)
                         top_left_extent') (\<lambda>area_extent'.
             Inr (area_extent', Some shape')))
         \<and> (\<forall>area_extent' shape'.
              extrapolate_information area_extent shape center radius resolution
                top_left_extent units p = Inr (area_extent', shape')
              \<longrightarrow> shape' = Some [2 * r1 / s1, 2 * r0 / s0])
         \<and> (\<forall>given. shape = Some given \<and> allclose given [2 * r1 / s1, 2 * r0 / s0] = Inr False
              \<longrightarrow> extrapolate_information area_extent shape center radius resolution
                    top_left_extent units p
                  = Inl (ValueError (ConflictingData ''shape'' [''radius'', ''resolution''])))"
  proof
    assume nz: "s0 \<noteq> 0 \<and> s1 \<noteq> 0"
    have eq: "extrapolate_information area_extent shape center radius resolution
             top_left_extent units p
           = bind_err (validate_variable shape [2 * r1 / s1, 2 * r0 / s0]
                         ''shape'' [''radius'', ''resolution'']) (\<lambda>shape'.
             bind_err (extrapolate_area_extent area_extent center' (Some rad)
                         top_left_extent') (\<lambda>area_extent'.
             Inr (area_extent', Some shape')))"
      using assms rad res nz
      by (cases "validate_variable shape [2 * r1 / s1, 2 * r0 / s0]
                   ''shape'' [''radius'', ''resolution'']")
         (simp_all add: extrapolate_information_def extrapolate_shape_def)
    moreover have "\<forall>area_extent' shape'.
              extrapolate_information area_extent shape center radius resolution
                top_left_extent units p = Inr (area_extent', shape')
              \<longrightarrow> shape' = Some [2 * r1 / s1, 2 * r0 / s0]"
      unfolding eq
      by (auto dest!: bind_err_Inr validate_variable_result)
    moreover have "\<forall>given. shape = Some given
                \<and> allclose given [2 * r1 / s1, 2 * r0 / s0] = Inr False
              \<longrightarrow> extrapolate_information area_extent shape center radius resolution
                    top_left_extent units p
                  = Inl (ValueError (ConflictingData ''shape'' [''radius'', ''resolution'']))"
      unfolding eq
      by (auto simp: validate_variable_def)
    ultimately show "extrapolate_information area_extent shape center radius resolution
             top_left_extent units p
           = bind_err (validate_variable shape [2 * r1 / s1, 2 * r0 / s0]
                         ''shape'' [''radius'', ''resolution'']) (\<lambda>shape'.
             bind_err (extrapolate_area_extent area_extent center' (Some rad)
                         top_left_extent') (\<lambda>area_extent'.
             Inr (area_extent', Some shape')))
         \<and> (\<forall>area_extent' shape'.
              extrapolate_information area_extent shape center radius resolution
                top_left_extent units p = Inr (area_extent', shape')
              \<longrightarrow> shape' = Some [2 * r1 / s1, 2 * r0 / s0])
         \<and> (\<forall>given. shape = Some given \<and> allclose given [2 * r1 / s1, 2 * r0 / s0] = Inr False
              \<longrightarrow> extrapolate_information area_extent shape center radius resolution
                    top_left_extent units p
                  = Inl (ValueError (ConflictingData ''shape'' [''radius'', ''resolution''])))"
      by blast
  qed
  from rad res main zero show ?thesis by blast
qed

lemma radius_stage:
  "extrapolate_radius None (Some [0, 0]) (Some (Plain [100, 300])) None (PStr ''meters'') flat
   = Inr (Some [0, 0], Some [100, 300], None)"
  by (simp add: engine_defs)

lemma resolution_stage:
  "convert_units (Some (Plain [10, 20])) ''resolution'' (PStr ''meters'') flat
     False (Some [0, 0])
   = Inr (Some [10, 20])"
  by (simp add: engine_defs)

text \<open>
  A radius of \<open>(100, 300)\<close> and a resolution of \<open>(10, 20)\<close> give 30 rows and 20 columns; a
  given shape of \<open>(20, 30)\<close> is refused.
\<close>

theorem shape_from_radius_and_resolution_witness:
  "extrapolate_information None None (Some [0, 0]) (Some (Plain [100, 300]))
     (Some (Plain [10, 20])) None (PStr ''meters'') flat
   = Inr (Some [- 100, - 300, 100, 300], Some [30, 20])
   \<and> extrapolate_information None (Some [20, 30]) (Some [0, 0]) (Some (Plain [100, 300]))
     (Some (Plain [10, 20])) None (PStr ''meters'') flat
   = Inl (ValueError (ConflictingData ''shape'' [''radius'', ''resolution'']))"
proof -
  have run: "extrapolate_information None shape (Some [0, 0]) (Some (Plain [100, 300]))
       (Some (Plain [10, 20])) None (PStr ''meters'') flat
     = bind_err (validate_variable shape [30, 20] ''shape'' [''radius'', ''resolution''])
         (\<lambda>shape'. Inr (Some [- 100, - 300, 100, 300], Some shape'))" for shape
  proof -
    from shape_from_radius_and_resolution [OF radius_stage resolution_stage, where shape = shape]
    obtain r0 r1 s0 s1 where v: "[100, 300] = [r0, r1]" "[10, 20] = [s0, s1]"
      and eq: "s0 \<noteq> 0 \<and> s1 \<noteq> 0 \<longrightarrow>
        extrapolate_information None shape (Some [0, 0]) (Some (Plain [100, 300]))
          (Some (Plain [10, 20])) None (PStr ''meters'') flat
        = bind_err (validate_variable shape [2 * r1 / s1, 2 * r0 / s0]
                      ''shape'' [''radius'', ''resolution'']) (\<lambda>shape'.
          bind_err (extrapolate_area_extent None (Some [0, 0]) (Some [100, 300]) None)
            (\<lambda>area_extent'. Inr (area_extent', Some shape')))"
      by blast
    from v have "r0 = 100" "r1 = 300" "s0 = 10" "s1 = 20" by simp_all
    with eq show ?thesis
      by (simp add: extrapolate_area_extent_def validate_variable_def)
  qed
  show ?thesis
    by (simp add: run validate_variable_def allclose_def isclose_def)
qed

subsection \<open>The terminal decision\<close>

text \<open>A shape that reaches \<^verbatim>\<open>_make_area\<close> has two components.\<close>

lemma resolved_shape_length:
  assumes "resolved_parameters f proj_dict p shape top_left_extent center area_extent
             resolution radius units = Inr (area_extent', Some sh)"
  shows "\<exists>a b. sh = [a, b]"
proof -
  from assms obtain shape_v ae c tle rad res u where
    v: "verify_list f ''shape'' shape 2 = Inr shape_v"
    and r: "(if ae = None \<or> map_option data shape_v = None
         then extrapolate_information ae (map_option data shape_v) c rad res tle u p
         else Inr (ae, map_option data shape_v)) = Inr (area_extent', Some sh)"
    unfolding resolved_parameters_def Let_def
    by (auto dest!: bind_err_Inr split: prod.splits)
  have len: "map_option data shape_v = Some sh \<Longrightarrow> length sh = 2"
    using v by (cases shape_v) (auto dest: verify_list_length)
  have "map_option data shape_v = Some sh \<or> (\<exists>a b. Some sh = Some [a, b])"
  proof (cases "ae = None \<or> map_option data shape_v = None")
    case True
    with r have "extrapolate_information ae (map_option data shape_v) c rad res tle u p
                   = Inr (area_extent', Some sh)"
      by simp
    from extrapolate_information_shape [OF this]
    have "Some sh = map_option data shape_v \<or> (\<exists>a b. Some sh = Some [a, b])" .
    then show ?thesis by (elim disjE) (simp_all only: eq_commute [of "Some sh"] simp_thms)
  next
    case False
    with r show ?thesis by auto
  qed
  then show ?thesis
  proof
    assume "map_option data shape_v = Some sh"
    then have "length sh = 2" by (rule len)
    then show ?thesis
      by (cases sh; cases "tl sh") auto
  qed auto
qed

lemma resolved_static:
  "resolved_parameters example_float [(''proj'', PStr ''stere'')]
     flat
     (Plain (PyList [PyNum 20, PyNum 10])) (Plain PyNone) (Plain PyNone)
     (Plain (PyList [PyNum 0, PyNum 0, PyNum 100, PyNum 200])) (Plain PyNone) (Plain PyNone) None
   = Inr (Some [0, 0, 100, 200], Some [20, 10])"
  by (simp add: engine_defs)

lemma resolved_dynamic:
  "resolved_parameters example_float [(''proj'', PStr ''stere'')]
     flat
     (Plain (PyList [PyNum 20, PyNum 10])) (Plain PyNone) (Plain PyNone)
     (Plain PyNone) (Plain PyNone) (Plain PyNone) None
   = Inr (None, Some [20, 10])"
  by (simp add: engine_defs)

lemma resolved_nothing:
  "resolved_parameters example_float [(''proj'', PStr ''stere'')]
     flat
     (Plain PyNone) (Plain PyNone) (Plain PyNone)
     (Plain PyNone) (Plain PyNone) (Plain PyNone) None
   = Inr (None, None)"
  by (simp add: engine_defs)

text \<open>
  Claim C1. When \<^verbatim>\<open>from_params\<close> reaches \<^verbatim>\<open>_make_area\<close> with an area extent and a shape,
  the result is an \<^verbatim>\<open>AreaDefinition\<close>; with exactly one of the two, a
  \<^verbatim>\<open>DynamicAreaDefinition\<close> holding the one that is there; with neither, the
  \<^verbatim>\<open>ValueError\<close> "Not enough information provided to create an area definition".
\<close>

theorem from_params_terminal_decision:
  assumes "resolved_parameters str_to_float proj_dict p shape top_left_extent center area_extent
             resolution radius units = Inr (area_extent', shape')"
  shows "(area_extent' \<noteq> None \<and> shape' \<noteq> None \<longrightarrow>
           (\<exists>description proj_id width height extent kwargs'.
              from_params str_to_float ident proj_dict p shape top_left_extent center
                area_extent resolution radius units kwargs
              = Inr (AreaDefinition ident description proj_id proj_dict width height extent
                       kwargs')))
       \<and> ((area_extent' = None) \<noteq> (shape' = None) \<longrightarrow>
           (\<exists>description width height rotation optimize_projection.
              from_params str_to_float ident proj_dict p shape top_left_extent center
                area_extent resolution radius units kwargs
              = Inr (DynamicAreaDefinition ident description proj_dict width height
                       area_extent' rotation optimize_projection)))
       \<and> (area_extent' = None \<and> shape' = None \<longrightarrow>
           from_params str_to_float ident proj_dict p shape top_left_extent center
             area_extent resolution radius units kwargs
           = Inl (ValueError NotEnoughInformation))"
proof (cases shape')
  case None
  then show ?thesis
    using assms by (cases area_extent') (simp_all add: from_params_def make_area_def Let_def)
next
  case (Some sh)
  with assms obtain a b where "sh = [a, b]"
    using resolved_shape_length by blast
  with Some show ?thesis
    using assms by (cases area_extent') (simp_all add: from_params_def make_area_def Let_def)
qed

text \<open>
  A shape with an area extent gives the static definition of 20 rows and 10 columns, the
  shape alone a dynamic one, and no quantity at all the error.
\<close>

theorem from_params_terminal_decision_witness:
  "from_params example_float ''x'' [(''proj'', PStr ''stere'')]
     flat
     (Plain (PyList [PyNum 20, PyNum 10])) (Plain PyNone) (Plain PyNone)
     (Plain (PyList [PyNum 0, PyNum 0, PyNum 100, PyNum 200])) (Plain PyNone) (Plain PyNone) None []
   = Inr (AreaDefinition ''x'' (PyStr ''x'') PyNone [(''proj'', PStr ''stere'')] 10 20
            [0, 0, 100, 200] [])
   \<and> from_params example_float ''x'' [(''proj'', PStr ''stere'')]
     flat
     (Plain (PyList [PyNum 20, PyNum 10])) (Plain PyNone) (Plain PyNone)
     (Plain PyNone) (Plain PyNone) (Plain PyNone) None []
   = Inr (DynamicAreaDefinition ''x'' (PyStr ''x'') [(''proj'', PStr ''stere'')] (Some 10)
            (Some 20) None PyNone (PyBool False))
   \<and> from_params example_float ''x'' [(''proj'', PStr ''stere'')]
     flat
     (Plain PyNone) (Plain PyNone) (Plain PyNone)
     (Plain PyNone) (Plain PyNone) (Plain PyNone) None []
   = Inl (ValueError NotEnoughInformation)"
proof -
  have "from_params example_float ''x'' [(''proj'', PStr ''stere'')]
     flat
     (Plain PyNone) (Plain PyNone) (Plain PyNone)
     (Plain PyNone) (Plain PyNone) (Plain PyNone) None []
   = Inl (ValueError NotEnoughInformation)"
    using from_params_terminal_decision [OF resolved_nothing, of "''x''" "[]"] by simp
  moreover have "from_params example_float ''x'' [(''proj'', PStr ''stere'')]
     flat
     (Plain (PyList [PyNum 20, PyNum 10])) (Plain PyNone) (Plain PyNone)
     (Plain (PyList [PyNum 0, PyNum 0, PyNum 100, PyNum 200])) (Plain PyNone) (Plain PyNone) None []
   = Inr (AreaDefinition ''x'' (PyStr ''x'') PyNone [(''proj'', PStr ''stere'')] 10 20
            [0, 0, 100, 200] [])"
    using resolved_static
    by (simp add: from_params_def make_area_def kwargs_get_def round_shape_def py_round_def)
  moreover have "from_params example_float ''x'' [(''proj'', PStr ''stere'')]
     flat
     (Plain (PyList [PyNum 20, PyNum 10])) (Plain PyNone) (Plain PyNone)
     (Plain PyNone) (Plain PyNone) (Plain PyNone) None []
   = Inr (DynamicAreaDefinition ''x'' (PyStr ''x'') [(''proj'', PStr ''stere'')] (Some 10)
            (Some 20) None PyNone (PyBool False))"
    using resolved_dynamic
    by (simp add: from_params_def make_area_def kwargs_get_def round_shape_def py_round_def)
  ultimately show ?thesis by simp
qed

section \<open>Properties of the YAML parameter reader\<close>

text \<open>
  When the bare key holds a value that is not a list, a component key beside it is
  refused with the error of the source.
\<close>

lemma get_list_scalar_and_component:
  "map_of variable var = Some v \<Longrightarrow> (\<forall>xs. v \<noteq> PyList xs) \<Longrightarrow> arg \<noteq> var \<Longrightarrow>
   map_of variable arg = Some c \<Longrightarrow>
   get_list [(var, PyDict variable)] var [arg] PyNone
     = Inl (ValueError (TooManyArguments var arg))"
  by (cases v) (simp_all add: get_list_def)

text \<open>
  Claim C5 fails on the code. For \<^verbatim>\<open>shape: {shape: [10], width: 20}\<close> the mapping has the
  bare key and a component key, but the bare key holds a list, so \<^verbatim>\<open>append\<close> succeeds:
  no error is raised, the component is added to the list of the bare key, and the
  result is accepted as the shape \<open>(10, 20)\<close>. With \<^verbatim>\<open>center: {center: [1, 2],
  center_x: 3}\<close> the list grows to three elements in the same way.
\<close>

theorem get_list_bare_list_and_component:
  "get_list [(''shape'', PyDict [(''shape'', PyList [PyNum 10]), (''width'', PyNum 20)])]
     ''shape'' [''height'', ''width''] PyNone
   = Inr (Plain (PyList [PyNum 10, PyNum 20]))
   \<and> verify_list example_float ''shape'' (Plain (PyList [PyNum 10, PyNum 20])) 2
   = Inr (Some (Plain [10, 20]))
   \<and> get_list
     [(''center'', PyDict [(''center'', PyList [PyNum 1, PyNum 2]), (''center_x'', PyNum 3)])]
     ''center'' [''center_x'', ''center_y''] PyNone
   = Inr (Plain (PyList [PyNum 1, PyNum 2, PyNum 3]))"
  by (simp add: get_list_def engine_defs)

section \<open>Properties of the loaders and of the legacy parser\<close>

lemma scan_lines_append:
  "scan_lines ca al sel st (xs @ ys) =
     (case scan_lines ca al sel st xs of Inl e \<Rightarrow> Inl e | Inr st' \<Rightarrow> scan_lines ca al sel st' ys)"
  by (induction xs arbitrary: st) (auto split: sum.splits)

text \<open>Inside a block, lines without the closing marker are only collected.\<close>

lemma scan_lines_open_block:
  "in_area st \<Longrightarrow> \<forall>l \<in> set rest. \<not> contains l ''};'' \<Longrightarrow>
     \<exists>st'. scan_lines ca al sel st rest = Inr st' \<and> area_defs st' = area_defs st"
proof (induction rest arbitrary: st)
  case Nil
  then show ?case by simp
next
  case (Cons l rest)
  let ?st1 = "st\<lparr>area_content := area_content st @ l\<rparr>"
  from Cons.prems have step: "scan_line ca al sel st l = Inr ?st1"
    by (simp add: scan_line_def)
  have "in_area ?st1" using Cons.prems by simp
  moreover have "\<forall>l \<in> set rest. \<not> contains l ''};''" using Cons.prems by simp
  ultimately obtain st' where "scan_lines ca al sel ?st1 rest = Inr st'"
    "area_defs st' = area_defs ?st1"
    using Cons.IH by blast
  then show ?case using step by simp
qed

text \<open>When all areas are selected, the list of definitions holds no \<^verbatim>\<open>None\<close>.\<close>

lemma scan_line_select_all:
  "scan_line ca al True st l = Inr st' \<Longrightarrow> None \<notin> set (area_defs st) \<Longrightarrow>
     None \<notin> set (area_defs st')"
  by (auto simp: scan_line_def Let_def split: if_splits sum.splits)

lemma scan_lines_select_all:
  "scan_lines ca al True st ls = Inr st' \<Longrightarrow> None \<notin> set (area_defs st) \<Longrightarrow>
     None \<notin> set (area_defs st')"
proof (induction ls arbitrary: st)
  case Nil
  then show ?case by simp
next
  case (Cons l ls)
  then show ?case
    by (auto split: sum.splits dest: scan_line_select_all)
qed

text \<open>With requested names, the list of definitions keeps its length.\<close>

lemma scan_line_length:
  "scan_line ca al False st l = Inr st' \<Longrightarrow> length (area_defs st') = length (area_defs st)"
  by (auto simp: scan_line_def Let_def split: if_splits sum.splits option.splits)

lemma scan_lines_length:
  "scan_lines ca al False st ls = Inr st' \<Longrightarrow> length (area_defs st') = length (area_defs st)"
proof (induction ls arbitrary: st)
  case Nil
  then show ?case by simp
next
  case (Cons l ls)
  then show ?case
    by (auto split: sum.splits dest: scan_line_length)
qed

lemma check_found_first_missing:
  "length names = length ds \<Longrightarrow> i < length ds \<Longrightarrow> ds ! i = None \<Longrightarrow>
   \<forall>j<i. ds ! j \<noteq> None \<Longrightarrow>
   check_found f names ds = Inl (AreaNotFound (not_found_message (names ! i) f))"
proof (induction ds arbitrary: names i)
  case Nil
  then show ?case by simp
next
  case (Cons d ds)
  then obtain n ns where names: "names = n # ns" by (cases names) auto
  show ?case
  proof (cases i)
    case 0
    then show ?thesis using Cons.prems names by simp
  next
    case (Suc k)
    with Cons.prems obtain a where d: "d = Some a" by (cases d) auto
    have "check_found f ns ds = Inl (AreaNotFound (not_found_message (ns ! k) f))"
    proof (rule Cons.IH)
      show "length ns = length ds" using Cons.prems names by simp
      show "k < length ds" using Cons.prems Suc by simp
      show "ds ! k = None" using Cons.prems Suc by simp
      show "\<forall>j<k. ds ! j \<noteq> None"
      proof (intro allI impI)
        fix j assume "j < k"
        then have "Suc j < i" using Suc by simp
        then have "(d # ds) ! Suc j \<noteq> None" using Cons.prems by blast
        then show "ds ! j \<noteq> None" by simp
      qed
    qed
    then show ?thesis using d names Suc by simp
  qed
qed

text \<open>Concrete scans used below: one closed block, read with and without requested names.\<close>

lemma one_block_parse:
  "parse_area_file (Inl ScannerError) keep_block ''areas.cfg''
     [''REGION: a {'', ''NAME: x'', ''};''] [] = Inr [(''a'', ''NAME: x'')]"
  by (simp add: parse_area_file_def parse_legacy_area_file_def scan_start_def scan_line_def
      region_id_def replace_def strip_def isspace_def startswith_def keep_block_def)

lemma closed_block_scan:
  "scan_lines keep_block [] True (scan_start [])
     [''REGION: a {'', ''NAME: x'', ''};''] =
   Inr \<lparr>in_area = False, area_id = ''a'', area_content = ''NAME: x'',
        area_defs = [Some (''a'', ''NAME: x'')]\<rparr>"
  by (simp add: scan_start_def scan_line_def
      region_id_def replace_def strip_def isspace_def startswith_def keep_block_def)

lemma one_of_three_scan:
  "scan_lines keep_block [''a'', ''b'', ''c''] False (scan_start [''a'', ''b'', ''c''])
     [''REGION: a {'', ''NAME: x'', ''};''] =
   Inr \<lparr>in_area = False, area_id = ''a'', area_content = ''NAME: x'',
        area_defs = [Some (''a'', ''NAME: x''), None, None]\<rparr>"
  by (simp add: scan_start_def scan_line_def
      region_id_def replace_def strip_def isspace_def startswith_def keep_block_def)

text \<open>
  Claim C9. \<^verbatim>\<open>load_area\<close> returns the bare definition whenever the parsed list has exactly
  one element, whether or not names were requested, and the list itself in every other
  case (no definition, or two or more).
\<close>

theorem load_area_single_or_list:
  assumes "parse_area_file yaml_result create_area area_file_name area_file regions = Inr area_list"
  shows "(length area_list = 1 \<longrightarrow>
            (\<exists>a. area_list = [a] \<and>
               load_area yaml_result create_area area_file_name area_file regions = Inr (Single a)))
       \<and> (length area_list \<noteq> 1 \<longrightarrow>
            load_area yaml_result create_area area_file_name area_file regions =
              Inr (Several area_list))"
proof (cases area_list)
  case Nil
  then show ?thesis using assms by (simp add: load_area_def)
next
  case (Cons a as)
  then show ?thesis using assms by (cases as) (simp_all add: load_area_def)
qed

text \<open>
  A legacy file with one block and no requested name gives the bare definition; an empty
  file gives the empty list.
\<close>

theorem load_area_single_or_list_witness:
  "parse_area_file (Inl ScannerError) keep_block ''areas.cfg''
     [''REGION: a {'', ''NAME: x'', ''};''] [] = Inr [(''a'', ''NAME: x'')]
   \<and> load_area (Inl ScannerError) keep_block ''areas.cfg''
     [''REGION: a {'', ''NAME: x'', ''};''] [] = Inr (Single (''a'', ''NAME: x''))
   \<and> load_area (Inl ScannerError) keep_block ''areas.cfg'' [] [] = Inr (Several [])"
proof -
  have e: "parse_area_file (Inl ScannerError) keep_block ''areas.cfg'' [] []
             = Inr ([] :: (string \<times> string) list)"
    by (simp add: parse_area_file_def parse_legacy_area_file_def scan_start_def)
  show ?thesis
    using load_area_single_or_list [OF one_block_parse] load_area_single_or_list [OF e]
      one_block_parse
    by simp
qed

text \<open>
  Claim C10. With no requested name, a \<^verbatim>\<open>REGION\<close> line read outside a block and followed
  by no line containing the closing marker adds no definition and raises nothing: the
  parser returns exactly the definitions of the blocks closed before it.
\<close>

theorem unterminated_block_select_all:
  assumes "scan_lines create_area [] True (scan_start []) before = Inr st"
    and "\<not> in_area st"
    and "contains line ''REGION''"
    and "\<forall>l \<in> set rest. \<not> contains l ''};''"
  shows "parse_legacy_area_file create_area area_file_name (before @ line # rest) []
           = Inr (map the (area_defs st))
       \<and> parse_legacy_area_file create_area area_file_name before []
           = Inr (map the (area_defs st))"
proof -
  let ?st1 = "st\<lparr>in_area := True, area_id := region_id line, area_content := ''''\<rparr>"
  have step: "scan_line create_area [] True st line = Inr ?st1"
    using assms(2,3) by (simp add: scan_line_def)
  have "in_area ?st1" by simp
  then obtain st' where rest: "scan_lines create_area [] True ?st1 rest = Inr st'"
    and defs: "area_defs st' = area_defs ?st1"
    using scan_lines_open_block [of ?st1 rest create_area "[]" True] assms(4) by blast
  have "scan_lines create_area [] True (scan_start []) (before @ line # rest) = Inr st'"
    using assms(1) step rest by (simp add: scan_lines_append)
  then show ?thesis
    using assms(1) defs by (simp add: parse_legacy_area_file_def)
qed

theorem unterminated_block_select_all_witness:
  "parse_legacy_area_file keep_block ''areas.cfg''
     ([''REGION: a {'', ''NAME: x'', ''};''] @ ''REGION: b {'' # [''NAME: y'', ''XSIZE: 3'']) []
   = Inr [(''a'', ''NAME: x'')]"
proof -
  have "\<forall>l \<in> set [''NAME: y'', ''XSIZE: 3'']. \<not> contains l ''};''"
    by (simp add: startswith_def)
  moreover have "contains ''REGION: b {'' ''REGION''"
    by (simp add: startswith_def)
  ultimately show ?thesis
    using unterminated_block_select_all [OF closed_block_scan, of "''REGION: b {''"
        "[''NAME: y'', ''XSIZE: 3'']" "''areas.cfg''"]
    by simp
qed

text \<open>
  Claim C4, as amended. When names were requested and the scan ends with a requested name
  unmatched, the parser fails with \<^verbatim>\<open>AreaNotFound\<close>, and the message names the first
  unmatched request in the order of the request (one name, whatever the number of
  unmatched requests).
\<close>

theorem area_not_found_names_first_missing:
  assumes "regions \<noteq> []"
    and "scan_lines create_area regions False (scan_start regions) area_file = Inr st"
    and "i < length regions"
    and "area_defs st ! i = None"
    and "\<forall>j<i. area_defs st ! j \<noteq> None"
  shows "parse_legacy_area_file create_area area_file_name area_file regions
           = Inl (AreaNotFound (not_found_message (regions ! i) area_file_name))"
proof -
  have len: "length (area_defs st) = length regions"
    using scan_lines_length [OF assms(2)] assms(1) by (simp add: scan_start_def)
  have "check_found area_file_name regions (area_defs st)
          = Inl (AreaNotFound (not_found_message (regions ! i) area_file_name))"
    using check_found_first_missing [of regions "area_defs st" i area_file_name] len assms(3-5)
    by simp
  then show ?thesis
    using assms(1,2) by (simp add: parse_legacy_area_file_def)
qed

theorem area_not_found_names_first_missing_witness:
  "parse_legacy_area_file keep_block ''areas.cfg''
     [''REGION: a {'', ''NAME: x'', ''};''] [''a'', ''b'', ''c'']
   = Inl (AreaNotFound (not_found_message ''b'' ''areas.cfg''))"
  using area_not_found_names_first_missing [OF _ one_of_three_scan, of 1 "''areas.cfg''"]
  by (simp add: less_Suc_eq)

text \<open>
  Claim C4 as stated fails: with the two requests \<open>aa\<close> and \<open>bb\<close> both unmatched, the
  message names \<open>aa\<close> and does not contain \<open>bb\<close>.
\<close>

theorem area_not_found_every_name_counterexample:
  "parse_legacy_area_file keep_block ''areas.cfg'' [] [''aa'', ''bb'']
     = Inl (AreaNotFound (not_found_message ''aa'' ''areas.cfg''))
   \<and> not_found_message ''aa'' ''areas.cfg'' = ''Area '' @ [CHR 0x22] @ ''aa'' @ [CHR 0x22] @
        '' not found in file '' @ [CHR 0x22] @ ''areas.cfg'' @ [CHR 0x22]
   \<and> \<not> contains (not_found_message ''aa'' ''areas.cfg'') ''bb''"
  by (simp add: parse_legacy_area_file_def scan_start_def not_found_message_def startswith_def)

section \<open>Properties of the PROJ.4 conversions\<close>

subsection \<open>Splitting and joining\<close>

lemma replace_plus: "replace s ''+'' '''' = filter (\<lambda>c. c \<noteq> CHR ''+'') s"
proof -
  have "replace_from ''+'' '''' 0 s = filter (\<lambda>c. c \<noteq> CHR ''+'') s"
    by (induction s) (simp_all add: startswith_def)
  then show ?thesis by (simp add: replace_def)
qed

lemma split_not_Nil: "split s sep \<noteq> []"
  by (induction s) (auto split: list.splits)

lemma split_no_sep: "t \<in> set (split s sep) \<Longrightarrow> sep \<notin> set t"
  by (induction s arbitrary: t) (auto split: if_splits list.splits)

lemma split_subset_all: "\<forall>t \<in> set (split s sep). set t \<subseteq> set s"
proof (induction s)
  case Nil
  then show ?case by simp
next
  case (Cons c cs)
  show ?case
  proof (cases "split cs sep")
    case Nil
    then show ?thesis by (simp add: split_not_Nil)
  next
    case (Cons w ws)
    with Cons.IH have "set w \<subseteq> set cs" "\<forall>t \<in> set ws. set t \<subseteq> set cs" by simp_all
    with Cons show ?thesis by auto
  qed
qed

lemma split_subset: "t \<in> set (split s sep) \<Longrightarrow> set t \<subseteq> set s"
  using split_subset_all by blast

lemma split_plain: "sep \<notin> set x \<Longrightarrow> split x sep = [x]"
  by (induction x) auto

lemma split_append_sep:
  "sep \<notin> set x \<Longrightarrow> split (x @ sep # rest) sep = x # split rest sep"
  by (induction x) (auto split: list.splits simp: split_not_Nil)

lemma split_join:
  "ts \<noteq> [] \<Longrightarrow> \<forall>t \<in> set ts. sep \<notin> set t \<Longrightarrow> split (join [sep] ts) sep = ts"
proof (induction "[sep]" ts rule: join.induct)
  case 1
  then show ?case by simp
next
  case (2 x)
  then show ?case by (simp add: split_plain)
next
  case (3 x y ys)
  then show ?case by (simp add: split_append_sep)
qed

lemma filter_join:
  "filter P (join sep ts) = join (filter P sep) (map (filter P) ts)"
  by (induction sep ts rule: join.induct) simp_all

lemma split1_plain: "sep \<notin> set t \<Longrightarrow> split1 t sep = [t]"
  by (simp add: split1_def)

lemma split1_pair: "sep \<notin> set k \<Longrightarrow> split1 (k @ sep # v) sep = [k, v]"
proof -
  assume k: "sep \<notin> set k"
  have "takeWhile (\<lambda>c. c \<noteq> sep) (k @ sep # v) = k"
    using k by (induction k) auto
  moreover have "dropWhile (\<lambda>c. c \<noteq> sep) (k @ sep # v) = sep # v"
    using k by (induction k) auto
  ultimately show ?thesis by (simp add: split1_def)
qed

lemma split1_cases:
  "(sep \<notin> set t \<and> split1 t sep = [t]) \<or>
   (\<exists>k v. t = k @ sep # v \<and> sep \<notin> set k \<and> split1 t sep = [k, v])"
proof (cases "sep \<in> set t")
  case False
  then show ?thesis by (simp add: split1_plain)
next
  case True
  then obtain k v where "t = k @ sep # v" "sep \<notin> set k"
    by (meson split_list_first)
  then show ?thesis using split1_pair by blast
qed

subsection \<open>What the parser makes of a string\<close>

lemma update_fresh: "k \<notin> fst ` set al \<Longrightarrow> AList.update k v al = al @ [(k, v)]"
  by (induction al) auto

lemma set_update_subset: "set (AList.update k v al) \<subseteq> insert (k, v) (set al)"
  by (induction al) auto

lemma update_not_Nil: "AList.update k v al \<noteq> []"
  by (cases al) auto

lemma read_entry_update:
  "read_entry pf (k, v) \<Longrightarrow> \<forall>e \<in> set acc. read_entry pf e \<Longrightarrow>
   \<forall>e \<in> set (AList.update k v acc). read_entry pf e"
  using set_update_subset [of k v acc] by auto

lemma loop_tokens:
  assumes "\<forall>t \<in> set ts. CHR '' '' \<notin> set t \<and> CHR ''+'' \<notin> set t"
    and "\<forall>e \<in> set acc. read_entry pf e"
    and "distinct (map fst acc)"
    and "ts \<noteq> [] \<or> acc \<noteq> []"
  shows "\<exists>d. convert_proj_floats_loop pf (map (\<lambda>t. split1 t (CHR ''='')) ts) acc = Inr d
           \<and> (\<forall>e \<in> set d. read_entry pf e) \<and> distinct (map fst d) \<and> d \<noteq> []"
  using assms
proof (induction ts arbitrary: acc)
  case Nil
  then show ?case by simp
next
  case (Cons t ts)
  from Cons.prems(1) have t: "CHR '' '' \<notin> set t" "CHR ''+'' \<notin> set t"
    and ts: "\<forall>t \<in> set ts. CHR '' '' \<notin> set t \<and> CHR ''+'' \<notin> set t"
    by simp_all
  from split1_cases [of "CHR ''=''" t]
  obtain k v where step:
    "convert_proj_floats_loop pf (map (\<lambda>t. split1 t (CHR ''='')) (t # ts)) acc
       = convert_proj_floats_loop pf (map (\<lambda>t. split1 t (CHR ''='')) ts) (AList.update k v acc)"
    and entry: "read_entry pf (k, v)"
  proof
    assume a: "CHR ''='' \<notin> set t \<and> split1 t (CHR ''='') = [t]"
    show ?thesis
    proof (rule that [of t PTrue])
      show "convert_proj_floats_loop pf (map (\<lambda>t. split1 t (CHR ''='')) (t # ts)) acc
        = convert_proj_floats_loop pf (map (\<lambda>t. split1 t (CHR ''='')) ts) (AList.update t PTrue acc)"
        using a by simp
      show "read_entry pf (t, PTrue)"
        using a t by (simp add: read_entry_def)
    qed
  next
    assume "\<exists>k v. t = k @ CHR ''='' # v \<and> CHR ''='' \<notin> set k \<and> split1 t (CHR ''='') = [k, v]"
    then obtain k v where b: "t = k @ CHR ''='' # v" "CHR ''='' \<notin> set k"
      "split1 t (CHR ''='') = [k, v]" by blast
    show ?thesis
    proof (rule that [of k "case pf v of Some r \<Rightarrow> PFloat r | None \<Rightarrow> PStr v"])
      show "convert_proj_floats_loop pf (map (\<lambda>t. split1 t (CHR ''='')) (t # ts)) acc
        = convert_proj_floats_loop pf (map (\<lambda>t. split1 t (CHR ''='')) ts)
            (AList.update k (case pf v of Some r \<Rightarrow> PFloat r | None \<Rightarrow> PStr v) acc)"
        using b by simp
      show "read_entry pf (k, case pf v of Some r \<Rightarrow> PFloat r | None \<Rightarrow> PStr v)"
        using b t by (auto simp: read_entry_def split: option.splits)
    qed
  qed
  have "\<exists>d. convert_proj_floats_loop pf (map (\<lambda>t. split1 t (CHR ''='')) ts) (AList.update k v acc)
              = Inr d
           \<and> (\<forall>e \<in> set d. read_entry pf e) \<and> distinct (map fst d) \<and> d \<noteq> []"
  proof (rule Cons.IH [OF ts])
    show "\<forall>e \<in> set (AList.update k v acc). read_entry pf e"
      using entry Cons.prems(2) by (rule read_entry_update)
    show "distinct (map fst (AList.update k v acc))"
      using Cons.prems(3) by (rule distinct_update)
    show "ts \<noteq> [] \<or> AList.update k v acc \<noteq> []"
      by (simp add: update_not_Nil)
  qed
  then show ?case unfolding step .
qed

lemma tokens_clean:
  "t \<in> set (split (replace s ''+'' '''') (CHR '' '')) \<Longrightarrow>
     CHR '' '' \<notin> set t \<and> CHR ''+'' \<notin> set t"
  using split_no_sep [of t "replace s ''+'' ''''" "CHR '' ''"]
    split_subset [of t "replace s ''+'' ''''" "CHR '' ''"]
  by (auto simp: replace_plus)

lemma proj4_str_to_dict_reads:
  "\<exists>d. proj4_str_to_dict pf s = Inr d
       \<and> (\<forall>e \<in> set d. read_entry pf e) \<and> distinct (map fst d) \<and> d \<noteq> []"
  unfolding proj4_str_to_dict_def convert_proj_floats_def
  by (rule loop_tokens) (auto dest: tokens_clean simp: split_not_Nil)

subsection \<open>Writing a dictionary and reading it back\<close>

lemma not_startswith_plus: "CHR ''+'' \<notin> set k \<Longrightarrow> \<not> startswith k ''+''"
  by (cases k) (auto simp: startswith_def)

lemma proj4_param_no_space:
  assumes "read_entry pf (k, v)" and "written_back pf ff (k, v)"
  shows "CHR '' '' \<notin> set (proj4_param ff (k, v))"
  using assms
  by (cases v)
     (auto simp: proj4_param_def format_projval_def read_entry_def written_back_def Let_def
        not_startswith_plus)

lemma proj4_param_reads_back:
  assumes "read_entry pf (k, v)" and "written_back pf ff (k, v)"
  shows "convert_proj_floats_loop pf
           (split1 (filter (\<lambda>c. c \<noteq> CHR ''+'') (proj4_param ff (k, v))) (CHR ''='') # rest) acc
         = convert_proj_floats_loop pf rest (AList.update k v acc)"
proof -
  from assms(1) have k: "CHR ''+'' \<notin> set k" "CHR ''='' \<notin> set k"
    by (simp_all add: read_entry_def)
  then have fk: "filter (\<lambda>c. c \<noteq> CHR ''+'') k = k"
    by (auto simp: filter_id_conv)
  show ?thesis
  proof (cases v)
    case PTrue
    with assms(2) have "k \<in> set [''no_defs'', ''no_off'', ''no_rot'']"
      by (simp add: written_back_def)
    then have "proj4_param ff (k, v) = ''+'' @ k"
      using k by (auto simp: proj4_param_def Let_def not_startswith_plus)
    then show ?thesis
      using k fk PTrue by (simp add: split1_plain)
  next
    case (PStr t)
    with assms(2) have "k \<notin> set [''no_defs'', ''no_off'', ''no_rot'']"
      by (simp add: written_back_def)
    then have "proj4_param ff (k, v) = ''+'' @ k @ ''='' @ t"
      using k PStr by (auto simp: proj4_param_def Let_def not_startswith_plus format_projval_def)
    moreover from assms(1) PStr have "filter (\<lambda>c. c \<noteq> CHR ''+'') t = t" "pf t = None"
      by (auto simp: read_entry_def filter_id_conv)
    ultimately show ?thesis
      using k fk PStr by (simp add: split1_pair)
  next
    case (PFloat r)
    with assms(2) have "k \<notin> set [''no_defs'', ''no_off'', ''no_rot'']"
      by (simp add: written_back_def)
    then have "proj4_param ff (k, v) = ''+'' @ k @ ''='' @ ff r"
      using k PFloat by (auto simp: proj4_param_def Let_def not_startswith_plus format_projval_def)
    moreover from assms(2) PFloat have "pf (filter (\<lambda>c. c \<noteq> CHR ''+'') (ff r)) = Some r"
      by (simp add: written_back_def)
    ultimately show ?thesis
      using k fk PFloat by (simp add: split1_pair)
  qed
qed

lemma loop_rebuilds:
  assumes "\<forall>e \<in> set es. read_entry pf e \<and> written_back pf ff e"
    and "distinct (map fst (acc @ es))"
  shows "convert_proj_floats_loop pf
           (map (\<lambda>e. split1 (filter (\<lambda>c. c \<noteq> CHR ''+'') (proj4_param ff e)) (CHR ''='')) es) acc
         = Inr (acc @ es)"
  using assms
proof (induction es arbitrary: acc)
  case Nil
  then show ?case by simp
next
  case (Cons e es)
  obtain k v where e: "e = (k, v)" by (cases e)
  from Cons.prems(1) e have kv: "read_entry pf (k, v)" "written_back pf ff (k, v)" by simp_all
  have step: "convert_proj_floats_loop pf
      (map (\<lambda>e. split1 (filter (\<lambda>c. c \<noteq> CHR ''+'') (proj4_param ff e)) (CHR ''='')) (e # es)) acc
    = convert_proj_floats_loop pf
      (map (\<lambda>e. split1 (filter (\<lambda>c. c \<noteq> CHR ''+'') (proj4_param ff e)) (CHR ''='')) es)
      (AList.update k v acc)"
    unfolding e list.map using kv by (rule proj4_param_reads_back)
  from Cons.prems(2) e have "k \<notin> fst ` set acc" by auto
  then have upd: "AList.update k v acc = acc @ [(k, v)]" by (rule update_fresh)
  have "convert_proj_floats_loop pf
      (map (\<lambda>e. split1 (filter (\<lambda>c. c \<noteq> CHR ''+'') (proj4_param ff e)) (CHR ''='')) es)
      (acc @ [(k, v)]) = Inr ((acc @ [(k, v)]) @ es)"
  proof (rule Cons.IH)
    show "\<forall>e \<in> set es. read_entry pf e \<and> written_back pf ff e"
      using Cons.prems(1) by simp
    show "distinct (map fst ((acc @ [(k, v)]) @ es))"
      using Cons.prems(2) e by simp
  qed
  then show ?case using step upd e by simp
qed

text \<open>
  Claim C6, as amended. Let the parser read the string \<open>s\<close> into the dictionary \<open>d\<close>. If
  the keys of \<open>d\<close> without a value are exactly its keys among \<^verbatim>\<open>no_defs\<close>, \<^verbatim>\<open>no_off\<close> and
  \<^verbatim>\<open>no_rot\<close>, and every float of \<open>d\<close> is written as a text without a space that reads
  back as the same float, then the string written for \<open>d\<close> is read as \<open>d\<close> again: the
  same keys, in the same order, with the same values.
\<close>

theorem proj4_round_trip:
  assumes "proj4_str_to_dict str_to_float s = Inr d"
    and "\<forall>e \<in> set d. written_back str_to_float float_to_str e"
  shows "proj4_str_to_dict str_to_float (proj4_dict_to_str float_to_str d False) = Inr d"
proof -
  from proj4_str_to_dict_reads [of str_to_float s] assms(1)
  have rd: "\<forall>e \<in> set d. read_entry str_to_float e" and dist: "distinct (map fst d)"
    and ne: "d \<noteq> []"
    by simp_all
  let ?tok = "\<lambda>e. filter (\<lambda>c. c \<noteq> CHR ''+'') (proj4_param float_to_str e)"
  have "replace (proj4_dict_to_str float_to_str d False) ''+'' '''' = join '' '' (map ?tok d)"
    by (simp add: proj4_dict_to_str_def replace_plus filter_join comp_def)
  moreover have "split (join [CHR '' ''] (map ?tok d)) (CHR '' '') = map ?tok d"
  proof (rule split_join)
    show "map ?tok d \<noteq> []" using ne by simp
    show "\<forall>t \<in> set (map ?tok d). CHR '' '' \<notin> set t"
    proof
      fix t assume "t \<in> set (map ?tok d)"
      then obtain e where e: "e \<in> set d" "t = ?tok e" by auto
      obtain k v where kv: "e = (k, v)" by (cases e)
      have "CHR '' '' \<notin> set (proj4_param float_to_str (k, v))"
        using rd assms(2) e(1) kv by (intro proj4_param_no_space [of str_to_float]) auto
      then show "CHR '' '' \<notin> set t" using e(2) kv by simp
    qed
  qed
  ultimately have "proj4_str_to_dict str_to_float (proj4_dict_to_str float_to_str d False)
      = convert_proj_floats_loop str_to_float
          (map (\<lambda>e. split1 (?tok e) (CHR ''='')) d) []"
    by (simp add: proj4_str_to_dict_def convert_proj_floats_def comp_def)
  also have "\<dots> = Inr ([] @ d)"
    using rd assms(2) dist by (intro loop_rebuilds) auto
  finally show ?thesis by simp
qed

lemmas proj4_defs =
  proj4_str_to_dict_def convert_proj_floats_def replace_def split1_def startswith_def
  proj4_dict_to_str_def proj4_param_def format_projval_def example_float_def example_repr_def

lemma stere_dict:
  "proj4_str_to_dict example_float ''+proj=stere +lat_0=0 +no_defs''
   = Inr [(''proj'', PStr ''stere''), (''lat_0'', PFloat 0), (''no_defs'', PTrue)]"
  by (simp add: proj4_defs)

text \<open>
  The string \<^verbatim>\<open>+proj=stere +lat_0=0 +no_defs\<close> comes back as
  \<^verbatim>\<open>+proj=stere +lat_0=0.0 +no_defs\<close>, which is read as the same dictionary.
\<close>

theorem proj4_round_trip_witness:
  "proj4_str_to_dict example_float ''+proj=stere +lat_0=0 +no_defs''
   = Inr [(''proj'', PStr ''stere''), (''lat_0'', PFloat 0), (''no_defs'', PTrue)]
   \<and> proj4_dict_to_str example_repr
       [(''proj'', PStr ''stere''), (''lat_0'', PFloat 0), (''no_defs'', PTrue)] False
     = ''+proj=stere +lat_0=0.0 +no_defs''
   \<and> proj4_str_to_dict example_float ''+proj=stere +lat_0=0.0 +no_defs''
     = Inr [(''proj'', PStr ''stere''), (''lat_0'', PFloat 0), (''no_defs'', PTrue)]"
proof -
  have w: "\<forall>e \<in> set [(''proj'', PStr ''stere''), (''lat_0'', PFloat 0), (''no_defs'', PTrue)].
             written_back example_float example_repr e"
    by (simp add: written_back_def example_float_def example_repr_def)
  have s: "proj4_dict_to_str example_repr
       [(''proj'', PStr ''stere''), (''lat_0'', PFloat 0), (''no_defs'', PTrue)] False
     = ''+proj=stere +lat_0=0.0 +no_defs''"
    by (simp add: proj4_defs)
  show ?thesis
    using proj4_round_trip [OF stere_dict w] stere_dict s by simp
qed

text \<open>
  Claim C6 as stated fails for a key without a value that is not one of the three: the
  flag \<^verbatim>\<open>south\<close> of \<^verbatim>\<open>+proj=utm +south\<close> is read as \<^verbatim>\<open>True\<close>, written as
  \<^verbatim>\<open>+south=True\<close>, and that is read as the string \<^verbatim>\<open>'True'\<close>.
\<close>

theorem proj4_round_trip_flag_counterexample:
  "proj4_str_to_dict example_float ''+proj=utm +south''
     = Inr [(''proj'', PStr ''utm''), (''south'', PTrue)]
   \<and> proj4_dict_to_str example_repr [(''proj'', PStr ''utm''), (''south'', PTrue)] False
     = ''+proj=utm +south=True''
   \<and> proj4_str_to_dict example_float ''+proj=utm +south=True''
     = Inr [(''proj'', PStr ''utm''), (''south'', PStr ''True'')]"
  by (simp add: proj4_defs)


end
